theory Spec2Isabelle
  imports Complex_Main "HOL-Library.Multiset"
begin

section \<open>JavaScript strings and values\<close>

text \<open>
  A string is the list of the bytes of its UTF-8 encoding (the strings are well formed,
  with no lone surrogate). Prefix tests, substring search and replacement work on
  the bytes as they do on the characters, since the encoding of a character never
  starts inside the encoding of another. \<open>includes\<close> (\<open>js_includes\<close> here) is substring
  search.
\<close>

fun startsWith :: "string \<Rightarrow> string \<Rightarrow> bool" where
  "startsWith s [] = True"
| "startsWith [] (k # ks) = False"
| "startsWith (c # cs) (k # ks) = (c = k \<and> startsWith cs ks)"

fun js_includes :: "string \<Rightarrow> string \<Rightarrow> bool" where
  "js_includes [] k = (k = [])"
| "js_includes (c # cs) k = (startsWith (c # cs) k \<or> js_includes cs k)"

text \<open>
  The lower case of a header name, which is ASCII: \<open>A\<close>..\<open>Z\<close> go to \<open>a\<close>..\<open>z\<close>. (The
  lower case of a text, \<open>String.prototype.toLowerCase\<close>, follows the case tables of
  Unicode and is an input of the model, see the keyword responder.)
\<close>

definition lower_char :: "char \<Rightarrow> char" where
  "lower_char c =
     (let n = (of_char c :: nat) in if 65 \<le> n \<and> n \<le> 90 then char_of (n + 32) else c)"

definition byte_lowercase :: "string \<Rightarrow> string" where
  "byte_lowercase s = map lower_char s"

text \<open>
  The characters \<open>String.prototype.trim\<close> strips, each by its encoding: the white
  space U+0009, U+000B, U+000C, U+FEFF and the space separators U+0020, U+00A0,
  U+1680, U+2000 to U+200A, U+202F, U+205F, U+3000, and the line terminators U+000A,
  U+000D, U+2028, U+2029.
\<close>

definition white_space :: "string list" where
  "white_space =
    [[CHR 0x09], [CHR 0x0A], [CHR 0x0B], [CHR 0x0C], [CHR 0x0D], [CHR 0x20],
     [CHR 0xC2, CHR 0xA0],
     [CHR 0xE1, CHR 0x9A, CHR 0x80],
     [CHR 0xE2, CHR 0x80, CHR 0x80], [CHR 0xE2, CHR 0x80, CHR 0x81],
     [CHR 0xE2, CHR 0x80, CHR 0x82], [CHR 0xE2, CHR 0x80, CHR 0x83],
     [CHR 0xE2, CHR 0x80, CHR 0x84], [CHR 0xE2, CHR 0x80, CHR 0x85],
     [CHR 0xE2, CHR 0x80, CHR 0x86], [CHR 0xE2, CHR 0x80, CHR 0x87],
     [CHR 0xE2, CHR 0x80, CHR 0x88], [CHR 0xE2, CHR 0x80, CHR 0x89],
     [CHR 0xE2, CHR 0x80, CHR 0x8A],
     [CHR 0xE2, CHR 0x80, CHR 0xA8], [CHR 0xE2, CHR 0x80, CHR 0xA9],
     [CHR 0xE2, CHR 0x80, CHR 0xAF],
     [CHR 0xE2, CHR 0x81, CHR 0x9F],
     [CHR 0xE3, CHR 0x80, CHR 0x80],
     [CHR 0xEF, CHR 0xBB, CHR 0xBF]]"

text \<open>
  The length of the sequence of \<open>seqs\<close> that \<open>s\<close> starts with, 0 if it starts with
  none; \<open>strip\<close> removes such sequences from the start of \<open>s\<close> as long as there is
  one.
\<close>

definition seq_prefix :: "string list \<Rightarrow> string \<Rightarrow> nat" where
  "seq_prefix seqs s = (case find (\<lambda>w. startsWith s w) seqs of None \<Rightarrow> 0 | Some w \<Rightarrow> length w)"

function strip :: "string list \<Rightarrow> string \<Rightarrow> string" where
  "strip seqs s = (if seq_prefix seqs s = 0 then s else strip seqs (drop (seq_prefix seqs s) s))"
  by pat_completeness auto
termination
proof (relation "measure (\<lambda>(seqs, s). length s)")
  show "wf (measure (\<lambda>(seqs, s). length s))" by simp
next
  fix seqs :: "string list" and s :: string
  assume p: "seq_prefix seqs s \<noteq> 0"
  have "seq_prefix seqs [] = 0"
  proof (induction seqs)
    case Nil
    then show ?case by (simp add: seq_prefix_def)
  next
    case (Cons w ws)
    then show ?case by (cases w) (simp_all add: seq_prefix_def)
  qed
  with p have "s \<noteq> []" by auto
  with p show "((seqs, drop (seq_prefix seqs s) s), (seqs, s)) \<in> measure (\<lambda>(seqs, s). length s)"
    by simp
qed

declare strip.simps [simp del]

definition trimStart :: "string \<Rightarrow> string" where
  "trimStart s = strip white_space s"

definition trimEnd :: "string \<Rightarrow> string" where
  "trimEnd s = rev (strip (map rev white_space) (rev s))"

definition trim :: "string \<Rightarrow> string" where
  "trim s = trimEnd (trimStart s)"

text \<open>
  The \<open>length\<close> of a string counts UTF-16 code units: one for a character of one to
  three bytes, two for a character of four bytes.
\<close>

definition utf16_units :: "char \<Rightarrow> nat" where
  "utf16_units c =
     (let n = (of_char c :: nat)
      in if n < 128 then 1 else if n < 192 then 0 else if n < 240 then 1 else 2)"

definition utf16_length :: "string \<Rightarrow> nat" where
  "utf16_length s = sum_list (map utf16_units s)"

text \<open>
  \<open>some\<close> of an array is \<^const>\<open>list_ex\<close>. Reading an array out of range gives
  \<open>undefined\<close> in JavaScript, which is \<^const>\<open>None\<close> here.
\<close>

definition js_index :: "'a list \<Rightarrow> nat \<Rightarrow> 'a option" where
  "js_index xs i = (if i < length xs then Some (xs ! i) else None)"

text \<open>\<open>String.prototype.replace\<close> with a string pattern: the first occurrence only.\<close>

fun replace_first :: "string \<Rightarrow> string \<Rightarrow> string \<Rightarrow> string" where
  "replace_first [] pat rep = (if pat = [] then rep else [])"
| "replace_first (c # cs) pat rep =
     (if startsWith (c # cs) pat then rep @ drop (length pat) (c # cs)
      else c # replace_first cs pat rep)"

text \<open>The decimal text of a natural number (\<open>Number.prototype.toString\<close>).\<close>

fun show_nat :: "nat \<Rightarrow> string" where
  "show_nat n =
     (if n < 10 then [char_of (48 + n)] else show_nat (n div 10) @ [char_of (48 + n mod 10)])"

declare show_nat.simps [simp del]

text \<open>
  A JavaScript value of the kind JSON carries, and \<open>undefined\<close>. A number is kept as
  the decimal text \<open>String(n)\<close> prints for it (\<open>0\<close> for both zeros); an object is the
  list of its properties, the first binding of a name being the property.
\<close>

datatype jsval =
    JUndefined
  | JNull
  | JBool bool
  | JNum string
  | JStr string
  | JArr "jsval list"
  | JObj "(string \<times> jsval) list"

fun truthy :: "jsval \<Rightarrow> bool" where
  "truthy JUndefined = False"
| "truthy JNull = False"
| "truthy (JBool b) = b"
| "truthy (JNum t) = (t \<noteq> ''0'' \<and> t \<noteq> ''NaN'')"
| "truthy (JStr s) = (s \<noteq> [])"
| "truthy (JArr xs) = True"
| "truthy (JObj kvs) = True"

text \<open>\<open>a || b\<close>\<close>

definition js_or :: "jsval \<Rightarrow> jsval \<Rightarrow> jsval" where
  "js_or a b = (if truthy a then a else b)"

fun join :: "string \<Rightarrow> string list \<Rightarrow> string" where
  "join sep [] = []"
| "join sep [x] = x"
| "join sep (x # y # ys) = x @ sep @ join sep (y # ys)"

text \<open>\<open>String(v)\<close>, the conversion \<open>new Error(v)\<close> applies to its message.\<close>

fun js_String :: "jsval \<Rightarrow> string" where
  "js_String JUndefined = ''undefined''"
| "js_String JNull = ''null''"
| "js_String (JBool b) = (if b then ''true'' else ''false'')"
| "js_String (JNum t) = t"
| "js_String (JStr s) = s"
| "js_String (JArr xs) =
     join '','' (map (\<lambda>x. if x = JUndefined \<or> x = JNull then [] else js_String x) xs)"
| "js_String (JObj kvs) = ''[object Object]''"

text \<open>
  Exceptions: \<open>Error m\<close> is an \<open>Error\<close> the sources construct, with its message;
  \<open>TypeError\<close> and \<open>SyntaxError\<close> are raised by the runtime (reading a property of
  \<open>null\<close>, parsing a text that is not JSON) and \<open>FetchFailed\<close> is a rejected
  \<open>fetch\<close> or remote call. All of them are instances of \<open>Error\<close>; the wording of the
  runtime's messages is not the sources', a fixed text stands for each.
\<close>

datatype js_error = Error string | TypeError | SyntaxError | FetchFailed

fun error_message :: "js_error \<Rightarrow> string" where
  "error_message (Error m) = m"
| "error_message TypeError = ''TypeError''"
| "error_message SyntaxError = ''SyntaxError''"
| "error_message FetchFailed = ''Failed to fetch''"

text \<open>
  Reading a property \<open>v.name\<close>. The names the sources read are data properties, so
  on a string or an array only \<open>length\<close> is found, and on a number or a boolean
  nothing is.
\<close>

fun get_prop :: "jsval \<Rightarrow> string \<Rightarrow> js_error + jsval" where
  "get_prop JUndefined name = Inl TypeError"
| "get_prop JNull name = Inl TypeError"
| "get_prop (JObj kvs) name = Inr (case map_of kvs name of None \<Rightarrow> JUndefined | Some v \<Rightarrow> v)"
| "get_prop (JArr xs) name =
     Inr (if name = ''length'' then JNum (show_nat (length xs)) else JUndefined)"
| "get_prop (JStr s) name =
     Inr (if name = ''length'' then JNum (show_nat (utf16_length s)) else JUndefined)"
| "get_prop (JNum t) name = Inr JUndefined"
| "get_prop (JBool b) name = Inr JUndefined"


section \<open>The keyword responder (frontend/src/utils/therapistResponses.ts)\<close>

definition therapistResponses :: "string list" where
  "therapistResponses =
    [''I hear you, and I want you to know that what you're feeling is completely valid. Can you tell me more about what's contributing to these feelings?'',
     ''That sounds really challenging. You've shown a lot of courage by sharing this with me. What has helped you cope with similar situations in the past?'',
     ''I appreciate you opening up about this. It takes strength to acknowledge these feelings. How long have you been experiencing this?'',
     ''Thank you for trusting me with this. Your feelings are important and deserve to be heard. What would it look like if this situation improved?'',
     ''I can sense this is weighing heavily on you. You're not alone in feeling this way. What kind of support do you feel you need right now?'',
     ''It sounds like you're going through a really difficult time. I'm here to support you through this. What's one small step you feel ready to take?'',
     ''Your perspective is valuable, and I'm glad you shared it with me. How has this been affecting other areas of your life?'',
     ''I can hear the pain in your words, and I want you to know that healing is possible. What does self-care look like for you?'',
     ''That must feel overwhelming. You're taking an important step by talking about it. What would you like to focus on in our conversation today?'',
     ''I notice you're being really thoughtful about this. Sometimes our emotions can feel complex. Can you help me understand what you're experiencing right now?'']"

definition copingResponses :: "string list" where
  "copingResponses =
    [''Those are healthy coping strategies. It's wonderful that you're aware of what helps you. How can we build on these strengths?'',
     ''I'm impressed by your resilience. These tools you've developed show real wisdom. Which of these feels most accessible to you right now?'',
     ''It sounds like you have some good insights into what works for you. That self-awareness is a real asset in your healing journey.'']"

definition crisisKeywords :: "string list" where
  "crisisKeywords =
    [''suicide'', ''kill'', ''hurt myself'', ''end it all'', ''die'', ''worthless'', ''hopeless'']"

definition anxietyKeywords :: "string list" where
  "anxietyKeywords = [''anxiety'', ''anxious'', ''panic'', ''worry'', ''nervous'', ''stressed'']"

definition depressionKeywords :: "string list" where
  "depressionKeywords = [''depressed'', ''sad'', ''hopeless'', ''empty'', ''lonely'', ''worthless'']"

definition copingKeywords :: "string list" where
  "copingKeywords = [''meditation'', ''exercise'', ''therapy'', ''support'', ''help'', ''better'']"

definition crisisResponse :: string where
  "crisisResponse = ''I'm really concerned about what you're sharing with me. Your safety is my top priority. If you're having thoughts of hurting yourself, please reach out to a crisis helpline immediately: National Suicide Prevention Lifeline (988) or Crisis Text Line (text HOME to 741741). Are you safe right now?''"

definition anxietyResponse :: string where
  "anxietyResponse = ''Anxiety can feel overwhelming, but you're not alone in this experience. Many people find relief through grounding techniques like deep breathing or the 5-4-3-2-1 method. What physical sensations do you notice when anxiety arises?''"

definition depressionResponse :: string where
  "depressionResponse = ''Depression can make everything feel heavier and more difficult. I want you to know that these feelings, while valid and real, don't define your worth. What's one small thing that has brought you even a moment of peace recently?''"

text \<open>
  The runtime's part in the responder, an input of the model:
  \<open>String.prototype.toLowerCase\<close>, which follows the case tables of Unicode, and the
  index \<open>Math.floor(Math.random() * n)\<close> comes to for a table of \<open>n\<close> entries (a
  product of floating-point numbers).
\<close>

record responder_env =
  toLowerCase :: "string \<Rightarrow> string"
  floorRandom :: "nat \<Rightarrow> nat"

text \<open>
  \<open>generateTherapistResponse(userInput, conversationHistory)\<close>. The conversation
  history has any type, the function never reads it. The result is \<open>None\<close> where the
  source returns \<open>undefined\<close> (an index out of the response table).
\<close>

definition generateTherapistResponse ::
  "responder_env \<Rightarrow> string \<Rightarrow> 'h \<Rightarrow> string option" where
  "generateTherapistResponse rt userInput conversationHistory =
     (let input = toLowerCase rt userInput in
      if list_ex (\<lambda>keyword. js_includes input keyword) crisisKeywords then Some crisisResponse
      else if list_ex (\<lambda>keyword. js_includes input keyword) anxietyKeywords then Some anxietyResponse
      else if list_ex (\<lambda>keyword. js_includes input keyword) depressionKeywords
        then Some depressionResponse
      else if list_ex (\<lambda>keyword. js_includes input keyword) copingKeywords
        then js_index copingResponses (floorRandom rt (length copingResponses))
      else js_index therapistResponses (floorRandom rt (length therapistResponses)))"


section \<open>The API client (frontend/src/services/api.ts)\<close>

text \<open>
  A request carries the JSON value its body is the text of (\<open>None\<close>: no body, or a
  body that is not JSON); a response carries its status and the value
  \<open>response.json()\<close> resolves with (\<open>None\<close>: the body is not JSON, and \<open>json()\<close>
  rejects with a \<open>SyntaxError\<close>).
\<close>

record http_request =
  req_method :: string
  req_url :: string
  req_headers :: "(string \<times> string) list"
  req_body :: "jsval option"

record http_response =
  status :: nat
  resp_json :: "jsval option"

definition ok :: "http_response \<Rightarrow> bool" where
  "ok response = (200 \<le> status response \<and> status response \<le> 299)"

text \<open>
  What the client runs against: its base URL, the outcome of
  \<open>supabase.auth.getSession()\<close> (the access token of the session, if there is one) and
  the network, a function from the request to the response or to the rejection.
\<close>

record api_env =
  baseUrl :: string
  getSession :: "js_error + string option"
  fetch :: "http_request \<Rightarrow> js_error + http_response"

definition getAuthHeaders :: "api_env \<Rightarrow> js_error + (string \<times> string) list" where
  "getAuthHeaders env =
     (case getSession env of
        Inl e \<Rightarrow> Inl e
      | Inr access_token \<Rightarrow>
          Inr ([(''Content-Type'', ''application/json'')] @
               (case access_token of
                  None \<Rightarrow> []
                | Some t \<Rightarrow> if t = [] then [] else [(''Authorization'', ''Bearer '' @ t)])))"

text \<open>\<open>ApiService.sendMessage\<close>: \<open>Inl\<close> is the rejection of the promise.\<close>

definition api_sendMessage :: "api_env \<Rightarrow> jsval \<Rightarrow> js_error + jsval" where
  "api_sendMessage env msg =
     (case getAuthHeaders env of
        Inl e \<Rightarrow> Inl e
      | Inr hs \<Rightarrow>
          (case fetch env \<lparr>req_method = ''POST'', req_url = baseUrl env @ ''/chat'',
                           req_headers = hs, req_body = Some msg\<rparr> of
             Inl e \<Rightarrow> Inl e
           | Inr response \<Rightarrow>
               if \<not> ok response then
                 (case resp_json response of
                    None \<Rightarrow> Inl SyntaxError
                  | Some error \<Rightarrow>
                      (case get_prop error ''detail'' of
                         Inl e \<Rightarrow> Inl e
                       | Inr detail \<Rightarrow>
                           Inl (Error (js_String (js_or detail (JStr ''Failed to send message''))))))
               else
                 (case resp_json response of
                    None \<Rightarrow> Inl SyntaxError
                  | Some data \<Rightarrow> Inr data)))"

text \<open>\<open>ApiService.getSessionHistory\<close>: every failure is caught and gives \<open>[]\<close>.\<close>

definition api_getSessionHistory :: "api_env \<Rightarrow> string \<Rightarrow> jsval" where
  "api_getSessionHistory env sessionId =
     (case getAuthHeaders env of
        Inl e \<Rightarrow> JArr []
      | Inr hs \<Rightarrow>
          (case fetch env \<lparr>req_method = ''GET'',
                           req_url = baseUrl env @ ''/session/'' @ sessionId @ ''/history'',
                           req_headers = hs, req_body = None\<rparr> of
             Inl e \<Rightarrow> JArr []
           | Inr response \<Rightarrow>
               if \<not> ok response then JArr []
               else
                 (case resp_json response of
                    None \<Rightarrow> JArr []
                  | Some data \<Rightarrow>
                      (case get_prop data ''history'' of
                         Inl e \<Rightarrow> JArr []
                       | Inr history \<Rightarrow> js_or history (JArr [])))))"

definition api_checkHealth :: "api_env \<Rightarrow> bool" where
  "api_checkHealth env =
     (case fetch env \<lparr>req_method = ''GET'', req_url = baseUrl env @ ''/health'',
                      req_headers = [], req_body = None\<rparr> of
        Inl e \<Rightarrow> False
      | Inr response \<Rightarrow> ok response)"

text \<open>The address \<open>createWebSocketConnection\<close> opens.\<close>

definition wsUrl :: "api_env \<Rightarrow> string" where
  "wsUrl env = replace_first (baseUrl env) ''http'' ''ws''"

definition webSocketAddress :: "api_env \<Rightarrow> string \<Rightarrow> string" where
  "webSocketAddress env sessionId = wsUrl env @ ''/api/v1/ws/'' @ sessionId"


section \<open>The chat edge function (supabase/functions/chat/index.ts)\<close>

text \<open>
  The \<open>messages\<close> table is the list of its rows, in insertion order. The function
  runs against the token check of \<open>supabase.auth.getUser\<close> (the user's id when the
  call reports no error and a user), the database's decision on an insert (the
  \<open>error\<close> of the insert's result is set when it refuses), the index
  \<open>Math.floor(Math.random() * n)\<close> comes to for a table of \<open>n\<close> entries, and the
  clock.
\<close>

record message_row =
  row_session_id :: jsval
  row_user_id :: string
  row_content :: jsval
  row_sender :: string
  row_message_type :: string

record edge_env =
  getUser :: "string \<Rightarrow> string option"
  accepts :: "message_row list \<Rightarrow> message_row \<Rightarrow> bool"
  randomIndex :: "nat \<Rightarrow> nat"
  now :: nat
  isoTime :: string

text \<open>\<open>supabase.from('messages').insert(row)\<close>: the flag is the result's \<open>error\<close>.\<close>

definition db_insert :: "edge_env \<Rightarrow> message_row \<Rightarrow> message_row list \<Rightarrow> bool \<times> message_row list" where
  "db_insert env row table =
     (if accepts env table row then (False, table @ [row]) else (True, table))"

definition responses :: "string list" where
  "responses =
    [''I understand you're sharing something important with me. Can you tell me more about how that makes you feel?'',
     ''Thank you for opening up about that. What thoughts come to mind when you reflect on this experience?'',
     ''It sounds like you're going through something challenging. How are you coping with these feelings?'',
     ''I appreciate you sharing that with me. What would you like to explore further about this situation?'',
     ''That sounds significant. How has this been affecting your daily life?'']"

definition generateTherapyResponse :: "edge_env \<Rightarrow> jsval \<Rightarrow> jsval" where
  "generateTherapyResponse env userMessage =
     (let randomResponse =
            (case js_index responses (randomIndex env (length responses)) of
               None \<Rightarrow> JUndefined
             | Some c \<Rightarrow> JStr c)
      in JObj
        [(''content'', randomResponse),
         (''psychological_insight'', JObj
            [(''pattern'', JStr ''Active listening''),
             (''confidence'', JNum ''0.8''),
             (''description'', JStr ''Encouraging further exploration and emotional expression''),
             (''therapeutic_approach'', JStr ''Person-centered therapy'')]),
         (''emotional_state'', JStr ''supportive''),
         (''topic_classification'', JStr ''general''),
         (''suggestions'', JArr
            [JStr ''Take time to reflect on your feelings'',
             JStr ''Consider journaling about this experience'',
             JStr ''Practice mindfulness when these thoughts arise'']),
         (''session_id'', JStr (show_nat (now env))),
         (''timestamp'', JStr (isoTime env)),
         (''confidence_score'', JNum ''0.75'')])"

text \<open>\<open>JSON.stringify\<close> of an object leaves out the properties that are \<open>undefined\<close>.\<close>

fun stringify :: "jsval \<Rightarrow> jsval" where
  "stringify (JObj kvs) = JObj (filter (\<lambda>kv. snd kv \<noteq> JUndefined) kvs)"
| "stringify v = v"

text \<open>
  \<open>Headers.get\<close>: header names are matched without regard to case, and the values of
  a header that occurs more than once are joined with a comma and a space.
\<close>

definition header_get :: "(string \<times> string) list \<Rightarrow> string \<Rightarrow> string option" where
  "header_get hs name =
     (let values = map snd (filter (\<lambda>kv. byte_lowercase (fst kv) = byte_lowercase name) hs)
      in if values = [] then None else Some (join '', '' values))"

text \<open>
  The user the rows are stored for: the id \<open>getUser\<close> reports for the token of the
  \<open>Authorization\<close> header, \<open>anonymous\<close> otherwise.
\<close>

definition userId_of :: "edge_env \<Rightarrow> http_request \<Rightarrow> string" where
  "userId_of env req =
     (case header_get (req_headers req) ''Authorization'' of
        None \<Rightarrow> ''anonymous''
      | Some authHeader \<Rightarrow>
          if authHeader = [] then ''anonymous''
          else
            (case getUser env (replace_first authHeader ''Bearer '' []) of
               None \<Rightarrow> ''anonymous''
             | Some uid \<Rightarrow> uid))"

definition user_row :: "jsval \<Rightarrow> string \<Rightarrow> jsval \<Rightarrow> message_row" where
  "user_row session_id userId content =
     \<lparr>row_session_id = session_id, row_user_id = userId, row_content = content,
      row_sender = ''user'', row_message_type = ''text''\<rparr>"

definition ai_row :: "jsval \<Rightarrow> string \<Rightarrow> jsval \<Rightarrow> message_row" where
  "ai_row session_id userId aiResponse =
     \<lparr>row_session_id = session_id, row_user_id = userId,
      row_content = (case get_prop aiResponse ''content'' of Inl e \<Rightarrow> JUndefined | Inr c \<Rightarrow> c),
      row_sender = ''ai'', row_message_type = ''text''\<rparr>"

text \<open>
  The handler from \<open>Store the user message\<close> to its \<open>return\<close>: the two inserts, whose
  errors are logged and nothing more, and the 200 response with the reply.
\<close>

definition store_and_reply ::
  "edge_env \<Rightarrow> jsval \<Rightarrow> string \<Rightarrow> jsval \<Rightarrow> message_row list \<Rightarrow> http_response \<times> message_row list"
where
  "store_and_reply env session_id userId content table =
     (let (messageError, table1) = db_insert env (user_row session_id userId content) table;
          aiResponse = generateTherapyResponse env content;
          (aiMessageError, table2) = db_insert env (ai_row session_id userId aiResponse) table1
      in (\<lparr>status = 200, resp_json = Some (stringify aiResponse)\<rparr>, table2))"

text \<open>
  The body of the handler's \<open>try\<close>: \<open>Inl\<close> is the exception it throws, which happens
  before any insert only. The function is taken to be deployed with \<open>SUPABASE_URL\<close>
  and \<open>SUPABASE_SERVICE_ROLE_KEY\<close> set, as the platform does.
\<close>

definition handle_post ::
  "edge_env \<Rightarrow> http_request \<Rightarrow> message_row list \<Rightarrow> js_error + http_response \<times> message_row list"
where
  "handle_post env req table =
     (if req_method req \<noteq> ''POST'' then Inl (Error ''Method not allowed'')
      else
        (case req_body req of
           None \<Rightarrow> Inl SyntaxError
         | Some body \<Rightarrow>
             (case get_prop body ''content'' of
                Inl e \<Rightarrow> Inl e
              | Inr content \<Rightarrow>
                  (case get_prop body ''session_id'' of
                     Inl e \<Rightarrow> Inl e
                   | Inr session_id \<Rightarrow>
                       if \<not> truthy content \<or> \<not> truthy session_id
                       then Inl (Error ''Missing required fields: content and session_id'')
                       else Inr (store_and_reply env session_id (userId_of env req) content
                                   table)))))"

text \<open>
  The handler: a preflight request is answered with the text \<open>ok\<close>; an exception of the
  \<open>try\<close> body becomes a 400 response whose body has the properties \<open>error\<close> and
  \<open>timestamp\<close>.
\<close>

definition chat_handler ::
  "edge_env \<Rightarrow> http_request \<Rightarrow> message_row list \<Rightarrow> http_response \<times> message_row list"
where
  "chat_handler env req table =
     (if req_method req = ''OPTIONS'' then (\<lparr>status = 200, resp_json = None\<rparr>, table)
      else
        (case handle_post env req table of
           Inr result \<Rightarrow> result
         | Inl error \<Rightarrow>
             (\<lparr>status = 400,
               resp_json = Some (JObj [(''error'', JStr (error_message error)),
                                       (''timestamp'', JStr (isoTime env))])\<rparr>,
              table)))"


section \<open>The chat hook (frontend/src/hooks/useChat.ts)\<close>

datatype sender = User | Ai

datatype reactionType = Helpful | Insightful | Supportive

record reactions =
  helpful :: int
  insightful :: int
  supportive :: int

text \<open>
  A message of the hook: the properties the hook itself writes, and in \<open>others\<close> the
  value whose own properties are the other properties of the message: the payload a
  spread copies (\<open>...data.data\<close>, \<open>...response\<close>), or the object of the properties
  \<open>content\<close>, \<open>session_id\<close> and \<open>confidence_score\<close> the hook writes. A payload is
  taken to bring no \<open>userReaction\<close> of its own, as its declared type \<open>ChatResponse\<close>
  says.
\<close>

record message =
  msg_id :: string
  msg_sender :: sender
  msg_timestamp :: string
  msg_reactions :: "reactions option"
  userReaction :: "reactionType option"
  others :: jsval

datatype ready_state = CONNECTING | OPEN | CLOSING | CLOSED

text \<open>
  The state of the hook: the four \<open>useState\<close> cells and the three refs. \<open>wsRef\<close> is
  the socket by its \<open>readyState\<close>, \<open>reconnectTimeoutRef\<close> the timer last scheduled, by
  its delay.
\<close>

record chat_state =
  messages :: "message list"
  isTyping :: jsval
  isConnected :: bool
  messageCount :: nat
  wsRef :: "ready_state option"
  reconnectTimeoutRef :: "nat option"
  reconnectAttempts :: nat

definition initial_state :: chat_state where
  "initial_state =
     \<lparr>messages = [], isTyping = JBool False, isConnected = False, messageCount = 0,
      wsRef = None, reconnectTimeoutRef = None, reconnectAttempts = 0\<rparr>"

definition maxReconnectAttempts :: nat where
  "maxReconnectAttempts = 5"

text \<open>
  What the hook does to the outside, in the order it does it (console output is left
  out): calls of the two optional callbacks, frames sent on the socket, messages
  handed to the REST client for posting, sockets opened and closed, timers set and
  cleared.
\<close>

datatype effect =
    OnError jsval
  | OnConnectionChange bool
  | WsSend jsval
  | Post jsval
  | CreateWebSocket string
  | CloseWebSocket
  | SetTimeout nat
  | ClearTimeout nat

text \<open>The options of the hook; a callback is either supplied or not.\<close>

record options =
  sessionId :: string
  onError :: bool
  onConnectionChange :: bool

text \<open>\<open>onError?.(v)\<close> and \<open>onConnectionChange?.(b)\<close>\<close>

definition call_onError :: "options \<Rightarrow> jsval \<Rightarrow> effect list" where
  "call_onError opts v = (if onError opts then [OnError v] else [])"

definition call_onConnectionChange :: "options \<Rightarrow> bool \<Rightarrow> effect list" where
  "call_onConnectionChange opts b = (if onConnectionChange opts then [OnConnectionChange b] else [])"

text \<open>
  The runtime's part in the hook: \<open>Date.now()\<close> with the text
  \<open>new Date().toLocaleTimeString(...)\<close> prints at that moment, the text
  \<open>new Date(v).toLocaleTimeString(...)\<close> prints for a stored time stamp, and the
  comparison \<open>v > 0\<close> on a value that is not known to be a number.
\<close>

record clock =
  date_now :: nat
  time_text :: string

record runtime =
  toLocaleTime :: "jsval \<Rightarrow> string"
  gt_zero :: "jsval \<Rightarrow> bool"

definition no_reactions :: reactions where
  "no_reactions = \<lparr>helpful = 0, insightful = 0, supportive = 0\<rparr>"

text \<open>A property read after a read of the same value has succeeded.\<close>

definition prop_of :: "jsval \<Rightarrow> string \<Rightarrow> jsval" where
  "prop_of v name = (case get_prop v name of Inl e \<Rightarrow> JUndefined | Inr x \<Rightarrow> x)"

text \<open>
  \<open>connectWebSocket\<close>; \<open>created\<close> says whether \<open>new WebSocket(...)\<close> returned (it
  throws on an address it does not accept).
\<close>

definition connectWebSocket ::
  "api_env \<Rightarrow> options \<Rightarrow> bool \<Rightarrow> chat_state \<Rightarrow> chat_state \<times> effect list" where
  "connectWebSocket env opts created s =
     (if created
      then (s\<lparr>wsRef := Some CONNECTING\<rparr>,
            [CreateWebSocket (webSocketAddress env (sessionId opts))])
      else (s\<lparr>isConnected := False\<rparr>, call_onConnectionChange opts False))"

definition attemptReconnect :: "options \<Rightarrow> chat_state \<Rightarrow> chat_state \<times> effect list" where
  "attemptReconnect opts s =
     (if reconnectAttempts s < maxReconnectAttempts then
        (let n = reconnectAttempts s + 1;
             delay = min (1000 * 2 ^ n) 30000
         in (s\<lparr>reconnectAttempts := n, reconnectTimeoutRef := Some delay\<rparr>, [SetTimeout delay]))
      else (s, call_onError opts (JStr ''Connection lost. Please refresh the page.'')))"

text \<open>The handlers \<open>connectWebSocket\<close> installs on the socket.\<close>

definition ws_onopen :: "options \<Rightarrow> chat_state \<Rightarrow> chat_state \<times> effect list" where
  "ws_onopen opts s =
     (s\<lparr>isConnected := True, reconnectAttempts := 0, wsRef := Some OPEN\<rparr>,
      call_onConnectionChange opts True)"

definition ws_onclose :: "options \<Rightarrow> chat_state \<Rightarrow> chat_state \<times> effect list" where
  "ws_onclose opts s =
     (let (s', effects) = attemptReconnect opts (s\<lparr>isConnected := False, wsRef := Some CLOSED\<rparr>)
      in (s', call_onConnectionChange opts False @ effects))"

definition ws_onerror :: "options \<Rightarrow> chat_state \<Rightarrow> chat_state \<times> effect list" where
  "ws_onerror opts s = (s\<lparr>isConnected := False\<rparr>, call_onConnectionChange opts False)"

text \<open>The callback of the reconnect timer.\<close>

definition reconnect_timer ::
  "api_env \<Rightarrow> options \<Rightarrow> bool \<Rightarrow> chat_state \<Rightarrow> chat_state \<times> effect list" where
  "reconnect_timer env opts created s = connectWebSocket env opts created s"

text \<open>
  \<open>handleWebSocketMessage(data)\<close>; \<open>Inl\<close> is the exception of reading \<open>data.type\<close> on
  \<open>null\<close>, thrown before any state is touched.
\<close>

definition handleWebSocketMessage ::
  "options \<Rightarrow> clock \<Rightarrow> jsval \<Rightarrow> chat_state \<Rightarrow> js_error + chat_state \<times> effect list" where
  "handleWebSocketMessage opts clk data s =
     (case get_prop data ''type'' of
        Inl e \<Rightarrow> Inl e
      | Inr ty \<Rightarrow>
          if ty = JStr ''chat_response'' then
            (let aiResponse =
                   \<lparr>msg_id = show_nat (date_now clk), msg_sender = Ai,
                    msg_timestamp = time_text clk, msg_reactions = Some no_reactions,
                    userReaction = None, others = prop_of data ''data''\<rparr>
             in Inr (s\<lparr>messages := messages s @ [aiResponse], isTyping := JBool False,
                       messageCount := messageCount s + 1\<rparr>, []))
          else if ty = JStr ''typing'' then Inr (s\<lparr>isTyping := prop_of data ''isTyping''\<rparr>, [])
          else if ty = JStr ''error'' then
            Inr (s\<lparr>isTyping := JBool False\<rparr>, call_onError opts (prop_of data ''message''))
          else Inr (s, []))"

text \<open>
  \<open>onmessage\<close>: \<open>parsed\<close> is the result of \<open>JSON.parse(event.data)\<close>, \<open>None\<close> when it
  throws; that exception and the handler's are caught and logged.
\<close>

definition ws_onmessage ::
  "options \<Rightarrow> clock \<Rightarrow> jsval option \<Rightarrow> chat_state \<Rightarrow> chat_state \<times> effect list" where
  "ws_onmessage opts clk parsed s =
     (case parsed of
        None \<Rightarrow> (s, [])
      | Some data \<Rightarrow>
          (case handleWebSocketMessage opts clk data s of
             Inl e \<Rightarrow> (s, [])
           | Inr result \<Rightarrow> result))"


text \<open>
  \<open>sendMessage(content, context)\<close> up to its \<open>await\<close>: the new state, the effects, and
  the message posted to the REST API when the socket is not open (\<open>None\<close> when the
  call is over without a request pending). An absent \<open>context\<close> is \<open>JUndefined\<close>.
\<close>

definition sendMessage_begin ::
  "options \<Rightarrow> clock \<Rightarrow> string \<Rightarrow> jsval \<Rightarrow> chat_state
     \<Rightarrow> chat_state \<times> effect list \<times> jsval option" where
  "sendMessage_begin opts clk content context s =
     (if trim content = [] then (s, [], None)
      else
        (let userMessage =
               \<lparr>msg_id = show_nat (date_now clk), msg_sender = User,
                msg_timestamp = time_text clk, msg_reactions = None, userReaction = None,
                others = JObj [(''content'', JStr content),
                               (''session_id'', JStr (sessionId opts)),
                               (''confidence_score'', JNum ''1'')]\<rparr>;
             s1 = s\<lparr>messages := messages s @ [userMessage],
                     messageCount := messageCount s + 1, isTyping := JBool True\<rparr>
         in if wsRef s = Some OPEN
            then (s1, [WsSend (JObj [(''content'', JStr content),
                                     (''context'', js_or context (JObj []))])], None)
            else
              (let request = JObj [(''content'', JStr content),
                                   (''session_id'', JStr (sessionId opts)),
                                   (''context'', js_or context (JObj []))]
               in (s1, [Post request], Some request))))"

text \<open>
  The rest of \<open>sendMessage\<close>, run when the REST call settles: the reply is appended,
  or the rejection is handed to \<open>onError\<close>.
\<close>

definition sendMessage_settle ::
  "options \<Rightarrow> clock \<Rightarrow> js_error + jsval \<Rightarrow> chat_state \<Rightarrow> chat_state \<times> effect list" where
  "sendMessage_settle opts clk result s =
     (case result of
        Inr response \<Rightarrow>
          (let aiResponse =
                 \<lparr>msg_id = show_nat (date_now clk + 1), msg_sender = Ai,
                  msg_timestamp = time_text clk, msg_reactions = Some no_reactions,
                  userReaction = None, others = response\<rparr>
           in (s\<lparr>messages := messages s @ [aiResponse], isTyping := JBool False,
                 messageCount := messageCount s + 1\<rparr>, []))
      | Inl error \<Rightarrow>
          (s\<lparr>isTyping := JBool False\<rparr>, call_onError opts (JStr (error_message error))))"

text \<open>A whole call of \<open>sendMessage\<close>, with no other event of the hook in between.\<close>

definition sendMessage ::
  "api_env \<Rightarrow> options \<Rightarrow> clock \<Rightarrow> clock \<Rightarrow> string \<Rightarrow> jsval \<Rightarrow> chat_state
     \<Rightarrow> chat_state \<times> effect list" where
  "sendMessage env opts clk clk' content context s =
     (case sendMessage_begin opts clk content context s of
        (s1, effects, None) \<Rightarrow> (s1, effects)
      | (s1, effects, Some request) \<Rightarrow>
          (let (s2, effects') = sendMessage_settle opts clk' (api_sendMessage env request) s1
           in (s2, effects @ effects')))"

definition decrement :: "reactionType \<Rightarrow> reactions \<Rightarrow> reactions" where
  "decrement r rs =
     (case r of
        Helpful \<Rightarrow> rs\<lparr>helpful := helpful rs - 1\<rparr>
      | Insightful \<Rightarrow> rs\<lparr>insightful := insightful rs - 1\<rparr>
      | Supportive \<Rightarrow> rs\<lparr>supportive := supportive rs - 1\<rparr>)"

definition increment :: "reactionType \<Rightarrow> reactions \<Rightarrow> reactions" where
  "increment r rs =
     (case r of
        Helpful \<Rightarrow> rs\<lparr>helpful := helpful rs + 1\<rparr>
      | Insightful \<Rightarrow> rs\<lparr>insightful := insightful rs + 1\<rparr>
      | Supportive \<Rightarrow> rs\<lparr>supportive := supportive rs + 1\<rparr>)"

definition react :: "string \<Rightarrow> reactionType \<Rightarrow> message \<Rightarrow> message" where
  "react messageId reactionType msg =
     (case msg_reactions msg of
        None \<Rightarrow> msg
      | Some rs \<Rightarrow>
          if msg_id msg = messageId then
            (let newReactions =
                   (case userReaction msg of None \<Rightarrow> rs | Some prev \<Rightarrow> decrement prev rs)
             in if userReaction msg \<noteq> Some reactionType
                then msg\<lparr>msg_reactions := Some (increment reactionType newReactions),
                         userReaction := Some reactionType\<rparr>
                else msg\<lparr>msg_reactions := Some newReactions, userReaction := None\<rparr>)
          else msg)"

definition addReaction :: "string \<Rightarrow> reactionType \<Rightarrow> chat_state \<Rightarrow> chat_state \<times> effect list" where
  "addReaction messageId reactionType s =
     (s\<lparr>messages := map (react messageId reactionType) (messages s)\<rparr>, [])"

text \<open>
  The \<open>history.map\<close> of \<open>initializeChat\<close>, from index \<open>i\<close> on; reading a property of an
  item that is \<open>null\<close> throws.
\<close>

fun formatHistory :: "runtime \<Rightarrow> options \<Rightarrow> nat \<Rightarrow> jsval list \<Rightarrow> js_error + message list" where
  "formatHistory rt opts i [] = Inr []"
| "formatHistory rt opts i (item # items) =
     (case get_prop item ''ai_response'' of
        Inl e \<Rightarrow> Inl e
      | Inr ai_response \<Rightarrow>
          (case formatHistory rt opts (i + 1) items of
             Inl e \<Rightarrow> Inl e
           | Inr rest \<Rightarrow>
               Inr (\<lparr>msg_id = ''history-'' @ show_nat i, msg_sender = Ai,
                     msg_timestamp = toLocaleTime rt (prop_of item ''timestamp''),
                     msg_reactions = Some no_reactions, userReaction = None,
                     others = JObj [(''content'', js_or ai_response (prop_of item ''content'')),
                                    (''session_id'', JStr (sessionId opts)),
                                    (''confidence_score'', JNum ''0.8'')]\<rparr> # rest)))"

text \<open>
  Whether \<open>history.length > 0\<close> holds, and whether \<open>history\<close> has the method \<open>map\<close>.
  \<open>getSessionHistory\<close> is declared to return an array; what it returns is
  \<open>data.history || []\<close>, any truthy value of the response (so never \<open>null\<close> or
  \<open>undefined\<close>).
\<close>

definition length_positive :: "runtime \<Rightarrow> jsval \<Rightarrow> bool" where
  "length_positive rt history =
     (case history of
        JArr items \<Rightarrow> 0 < length items
      | JStr str \<Rightarrow> 0 < length str
      | JObj kvs \<Rightarrow> (case map_of kvs ''length'' of None \<Rightarrow> False | Some v \<Rightarrow> gt_zero rt v)
      | _ \<Rightarrow> False)"

text \<open>
  \<open>initializeChat\<close>, run as a whole once its two requests have settled (it touches the
  state only after them). Every exception of its body is handed to \<open>onError\<close>.
\<close>

definition initializeChat ::
  "api_env \<Rightarrow> runtime \<Rightarrow> options \<Rightarrow> bool \<Rightarrow> chat_state \<Rightarrow> chat_state \<times> effect list" where
  "initializeChat env rt opts created s =
     (if \<not> api_checkHealth env
      then (s, call_onError opts (JStr ''Backend service is not available''))
      else
        (let history = api_getSessionHistory env (sessionId opts)
         in if length_positive rt history then
              (case history of
                 JArr items \<Rightarrow>
                   (case formatHistory rt opts 0 items of
                      Inl e \<Rightarrow> (s, call_onError opts (JStr (error_message e)))
                    | Inr formattedHistory \<Rightarrow>
                        connectWebSocket env opts created
                          (s\<lparr>messages := formattedHistory, messageCount := length items\<rparr>))
               | _ \<Rightarrow> (s, call_onError opts (JStr (error_message TypeError))))
            else connectWebSocket env opts created s))"

definition cleanup :: "chat_state \<Rightarrow> chat_state \<times> effect list" where
  "cleanup s =
     (s\<lparr>wsRef := (case wsRef s of
                     None \<Rightarrow> None
                   | Some CLOSED \<Rightarrow> Some CLOSED
                   | Some st \<Rightarrow> Some CLOSING)\<rparr>,
      (case wsRef s of None \<Rightarrow> [] | Some st \<Rightarrow> [CloseWebSocket]) @
      (case reconnectTimeoutRef s of None \<Rightarrow> [] | Some d \<Rightarrow> [ClearTimeout d]))"

text \<open>
  The hook as a transition system: an event is one of the things that run code of the
  hook, with the inputs that code reads from outside; \<open>run\<close> applies a sequence of
  events, in order.
\<close>

datatype hook_event =
    Initialize api_env runtime bool
  | SocketOpen
  | SocketMessage clock "jsval option"
  | SocketClose
  | SocketError
  | TimerFired api_env bool
  | Send clock string jsval
  | RestSettled clock "js_error + jsval"
  | React string reactionType
  | Unmount

fun hook_step :: "options \<Rightarrow> hook_event \<Rightarrow> chat_state \<Rightarrow> chat_state \<times> effect list" where
  "hook_step opts (Initialize env rt created) s = initializeChat env rt opts created s"
| "hook_step opts SocketOpen s = ws_onopen opts s"
| "hook_step opts (SocketMessage clk parsed) s = ws_onmessage opts clk parsed s"
| "hook_step opts SocketClose s = ws_onclose opts s"
| "hook_step opts SocketError s = ws_onerror opts s"
| "hook_step opts (TimerFired env created) s = reconnect_timer env opts created s"
| "hook_step opts (Send clk content context) s =
     (case sendMessage_begin opts clk content context s of (s', effects, pending) \<Rightarrow> (s', effects))"
| "hook_step opts (RestSettled clk result) s = sendMessage_settle opts clk result s"
| "hook_step opts (React messageId reactionType) s = addReaction messageId reactionType s"
| "hook_step opts Unmount s = cleanup s"

fun run :: "options \<Rightarrow> hook_event list \<Rightarrow> chat_state \<Rightarrow> chat_state \<times> effect list" where
  "run opts [] s = (s, [])"
| "run opts (ev # evs) s =
     (let (s1, effects) = hook_step opts ev s;
          (s2, effects') = run opts evs s1
      in (s2, effects @ effects'))"


section \<open>The session history endpoint\<close>

text \<open>
  Modelled from the spec: the handler of \<open>GET /session/{id}/history\<close> belongs to the
  backend service, whose code is not among the sources (the edge function answers
  \<open>POST\<close> and \<open>OPTIONS\<close> only). The spec says that it returns the session's messages
  in creation order, ascending by creation time stamp. A stored message is its
  session, its creation time and the JSON item the endpoint returns for it; the list
  goes out under the property \<open>history\<close>, where the client reads it.
\<close>

record stored_message =
  sm_session :: string
  sm_created :: nat
  sm_item :: jsval

definition session_history :: "stored_message list \<Rightarrow> string \<Rightarrow> stored_message list" where
  "session_history store sid = sort_key sm_created (filter (\<lambda>m. sm_session m = sid) store)"

definition history_endpoint :: "stored_message list \<Rightarrow> string \<Rightarrow> http_response" where
  "history_endpoint store sid =
     \<lparr>status = 200,
      resp_json = Some (JObj [(''history'', JArr (map sm_item (session_history store sid)))])\<rparr>"


section \<open>The message counter of the schema (frontend/supabase/migrations)\<close>

text \<open>
  The tables \<open>chat_sessions\<close> and \<open>chat_messages\<close> with the columns the trigger and
  the constraints read; time stamps are numbers, and \<open>now()\<close> is an input of every
  statement.
\<close>

record chat_session =
  cs_id :: string
  cs_user_id :: string
  cs_updated_at :: nat
  message_count :: int

record chat_message =
  cm_id :: string
  cm_session_id :: string
  cm_content :: string
  cm_sender :: string
  cm_created_at :: nat

record database =
  chat_sessions :: "chat_session list"
  chat_messages :: "chat_message list"

datatype db_error = UniqueViolation | ForeignKeyViolation | CheckViolation

text \<open>\<open>SELECT COUNT(*) FROM chat_messages WHERE session_id = sid\<close>\<close>

definition count_messages :: "database \<Rightarrow> string \<Rightarrow> int" where
  "count_messages db sid = int (length (filter (\<lambda>m. cm_session_id m = sid) (chat_messages db)))"

text \<open>
  The trigger function \<open>update_session_message_count\<close>, run for the row \<open>NEW\<close>; the
  update it makes fires \<open>update_chat_sessions_updated_at\<close>, which sets \<open>updated_at\<close> to
  \<open>now()\<close> once more.
\<close>

definition update_updated_at_column :: "nat \<Rightarrow> chat_session \<Rightarrow> chat_session" where
  "update_updated_at_column now_ts NEW = NEW\<lparr>cs_updated_at := now_ts\<rparr>"

definition update_session_message_count :: "nat \<Rightarrow> chat_message \<Rightarrow> database \<Rightarrow> database" where
  "update_session_message_count now_ts NEW db =
     db\<lparr>chat_sessions :=
          map (\<lambda>s. if cs_id s = cm_session_id NEW
                    then update_updated_at_column now_ts
                           (s\<lparr>message_count := count_messages db (cm_session_id NEW),
                              cs_updated_at := now_ts\<rparr>)
                    else s)
              (chat_sessions db)\<rparr>"

text \<open>
  \<open>INSERT INTO chat_messages\<close>: the primary key, the foreign key and the \<open>CHECK\<close> on
  \<open>sender\<close> are tested, the row is added, and the trigger
  \<open>update_message_count_trigger\<close> (\<open>AFTER INSERT ... FOR EACH ROW\<close>) runs.
\<close>

definition insert_chat_message :: "nat \<Rightarrow> chat_message \<Rightarrow> database \<Rightarrow> db_error + database" where
  "insert_chat_message now_ts row db =
     (if cm_id row \<in> set (map cm_id (chat_messages db)) then Inl UniqueViolation
      else if cm_session_id row \<notin> set (map cs_id (chat_sessions db)) then Inl ForeignKeyViolation
      else if cm_sender row \<notin> {''user'', ''therapist''} then Inl CheckViolation
      else Inr (update_session_message_count now_ts row
                  (db\<lparr>chat_messages := chat_messages db @ [row]\<rparr>)))"

text \<open>\<open>DELETE FROM chat_messages WHERE id = mid\<close>: no trigger is declared for it.\<close>

definition delete_chat_message :: "string \<Rightarrow> database \<Rightarrow> database" where
  "delete_chat_message mid db =
     db\<lparr>chat_messages := filter (\<lambda>m. cm_id m \<noteq> mid) (chat_messages db)\<rparr>"

text \<open>
  \<open>INSERT INTO chat_sessions\<close> with the default \<open>message_count\<close> of 0, and
  \<open>DELETE FROM chat_sessions WHERE id = sid\<close>, which takes the session's messages
  with it (\<open>ON DELETE CASCADE\<close>).
\<close>

definition insert_chat_session :: "nat \<Rightarrow> string \<Rightarrow> string \<Rightarrow> database \<Rightarrow> db_error + database" where
  "insert_chat_session now_ts sid uid db =
     (if sid \<in> set (map cs_id (chat_sessions db)) then Inl UniqueViolation
      else Inr (db\<lparr>chat_sessions := chat_sessions db @
                      [\<lparr>cs_id = sid, cs_user_id = uid, cs_updated_at = now_ts,
                        message_count = 0\<rparr>]\<rparr>))"

definition delete_chat_session :: "string \<Rightarrow> database \<Rightarrow> database" where
  "delete_chat_session sid db =
     db\<lparr>chat_sessions := filter (\<lambda>s. cs_id s \<noteq> sid) (chat_sessions db),
        chat_messages := filter (\<lambda>m. cm_session_id m \<noteq> sid) (chat_messages db)\<rparr>"

text \<open>The counter of every session is the number of the messages that reference it.\<close>

definition counts_agree :: "database \<Rightarrow> bool" where
  "counts_agree db = list_all (\<lambda>s. message_count s = count_messages db (cs_id s)) (chat_sessions db)"

definition empty_database :: database where
  "empty_database = \<lparr>chat_sessions = [], chat_messages = []\<rparr>"


section \<open>Predicates and sample inputs of the properties\<close>

text \<open>The invariant of the hook: the counter is the number of messages shown.\<close>

definition count_ok :: "chat_state \<Rightarrow> bool" where
  "count_ok s = (messageCount s = length (messages s))"

fun is_SetTimeout :: "effect \<Rightarrow> bool" where
  "is_SetTimeout (SetTimeout d) = True"
| "is_SetTimeout e = False"

text \<open>A result of a handler that leaves the attempt counter alone and sets no timer.\<close>

definition quiet :: "chat_state \<Rightarrow> chat_state \<times> effect list \<Rightarrow> bool" where
  "quiet s r = (reconnectAttempts (fst r) = reconnectAttempts s \<and> filter is_SetTimeout (snd r) = [])"

definition example_options :: options where
  "example_options = \<lparr>sessionId = ''session-1'', onError = True, onConnectionChange = True\<rparr>"

definition example_clock :: clock where
  "example_clock = \<lparr>date_now = 1700000000000, time_text = ''09:30''\<rparr>"

text \<open>A client whose requests all fail in the network.\<close>

definition offline_env :: api_env where
  "offline_env =
     \<lparr>baseUrl = ''http://localhost:8000'', getSession = Inr None, fetch = (\<lambda>req. Inl FetchFailed)\<rparr>"


text \<open>
  An edge function whose database accepts every insert, one whose database refuses
  every insert, and a well-formed request.
\<close>

definition example_edge_env :: edge_env where
  "example_edge_env =
     \<lparr>getUser = (\<lambda>token. None), accepts = (\<lambda>table row. True),
      randomIndex = (\<lambda>n. 0),
      now = 1700000000000, isoTime = ''2023-11-14T22:13:20.000Z''\<rparr>"

definition refusing_edge_env :: edge_env where
  "refusing_edge_env = example_edge_env\<lparr>accepts := (\<lambda>table row. False)\<rparr>"

definition example_request :: http_request where
  "example_request =
     \<lparr>req_method = ''POST'', req_url = ''http://localhost:8000/chat'',
      req_headers = [(''Content-Type'', ''application/json'')],
      req_body = Some (JObj [(''content'', JStr ''hello''), (''session_id'', JStr ''session-1''),
                             (''context'', JObj [])])\<rparr>"


text \<open>
  A client whose network is the edge function over an empty table, a message with an
  empty session id, and a client whose server answers every request with status 422
  and a \<open>detail\<close>.
\<close>

definition edge_backed_env :: api_env where
  "edge_backed_env =
     \<lparr>baseUrl = ''http://localhost:8000'', getSession = Inr None,
      fetch = (\<lambda>req. Inr (fst (chat_handler example_edge_env req [])))\<rparr>"

definition message_without_session :: jsval where
  "message_without_session =
     JObj [(''content'', JStr ''hello''), (''session_id'', JStr []), (''context'', JObj [])]"

definition detail_env :: api_env where
  "detail_env =
     \<lparr>baseUrl = ''http://localhost:8000'', getSession = Inr None,
      fetch = (\<lambda>req. Inr \<lparr>status = 422,
                              resp_json = Some (JObj [(''detail'', JStr ''Session not found'')])\<rparr>)\<rparr>"

text \<open>
  A client whose server answers with status 502 and a body that is not JSON, and one
  whose server answers with status 500 and the body \<open>null\<close>.
\<close>

definition gateway_env :: api_env where
  "gateway_env =
     \<lparr>baseUrl = ''http://localhost:8000'', getSession = Inr None,
      fetch = (\<lambda>req. Inr \<lparr>status = 502, resp_json = None\<rparr>)\<rparr>"

definition null_body_env :: api_env where
  "null_body_env =
     \<lparr>baseUrl = ''http://localhost:8000'', getSession = Inr None,
      fetch = (\<lambda>req. Inr \<lparr>status = 500, resp_json = Some JNull\<rparr>)\<rparr>"

text \<open>
  A store with messages of two sessions, out of creation order, and a client whose
  network is the history endpoint over a store, for the session \<open>session-1\<close>.
\<close>

definition example_store :: "stored_message list" where
  "example_store =
     [\<lparr>sm_session = ''session-1'', sm_created = 30, sm_item = JObj [(''content'', JStr ''third'')]\<rparr>,
      \<lparr>sm_session = ''session-2'', sm_created = 5, sm_item = JObj [(''content'', JStr ''other'')]\<rparr>,
      \<lparr>sm_session = ''session-1'', sm_created = 10, sm_item = JObj [(''content'', JStr ''first'')]\<rparr>,
      \<lparr>sm_session = ''session-1'', sm_created = 20, sm_item = JObj [(''content'', JStr ''second'')]\<rparr>]"

definition history_env :: "stored_message list \<Rightarrow> api_env" where
  "history_env store =
     \<lparr>baseUrl = ''http://localhost:8000'', getSession = Inr (Some ''token''),
      fetch = (\<lambda>req. Inr (history_endpoint store ''session-1''))\<rparr>"

text \<open>
  A database with one session and no message, the message inserted into it, and the
  database after the insert.
\<close>

definition example_message :: chat_message where
  "example_message =
     \<lparr>cm_id = ''m1'', cm_session_id = ''s1'', cm_content = ''hello'', cm_sender = ''user'',
      cm_created_at = 2\<rparr>"

definition one_session :: database where
  "one_session =
     \<lparr>chat_sessions =
        [\<lparr>cs_id = ''s1'', cs_user_id = ''u1'', cs_updated_at = 1, message_count = 0\<rparr>],
      chat_messages = []\<rparr>"

definition one_message :: database where
  "one_message =
     \<lparr>chat_sessions =
        [\<lparr>cs_id = ''s1'', cs_user_id = ''u1'', cs_updated_at = 2, message_count = 1\<rparr>],
      chat_messages = [example_message]\<rparr>"

text \<open>
  Two runtimes of the responder. On a text in ASCII \<open>toLowerCase\<close> is the lower case
  of the letters \<open>A\<close>..\<open>Z\<close>; the second one also takes the Kelvin sign U+212A to \<open>k\<close>,
  as the case tables of Unicode do.
\<close>

definition ascii_responder_env :: responder_env where
  "ascii_responder_env = \<lparr>toLowerCase = byte_lowercase, floorRandom = (\<lambda>n. 0)\<rparr>"

definition kelvin_responder_env :: responder_env where
  "kelvin_responder_env =
     \<lparr>toLowerCase = (\<lambda>s. byte_lowercase (replace_first s [CHR 0xE2, CHR 0x84, CHR 0xAA] ''k'')),
      floorRandom = (\<lambda>n. 0)\<rparr>"

text \<open>
  A database with two sessions, the second with a counter that does not agree with
  its rows, and the database after the insert of the message for the first.
\<close>

definition two_sessions :: database where
  "two_sessions =
     \<lparr>chat_sessions =
        [\<lparr>cs_id = ''s1'', cs_user_id = ''u1'', cs_updated_at = 1, message_count = 0\<rparr>,
         \<lparr>cs_id = ''s2'', cs_user_id = ''u1'', cs_updated_at = 1, message_count = 7\<rparr>],
      chat_messages = []\<rparr>"

definition two_sessions_after :: database where
  "two_sessions_after =
     \<lparr>chat_sessions =
        [\<lparr>cs_id = ''s1'', cs_user_id = ''u1'', cs_updated_at = 2, message_count = 1\<rparr>,
         \<lparr>cs_id = ''s2'', cs_user_id = ''u1'', cs_updated_at = 1, message_count = 7\<rparr>],
      chat_messages = [example_message]\<rparr>"

text \<open>What an insert adds to the table: the row if the database accepts it.\<close>

definition stored :: "edge_env \<Rightarrow> message_row list \<Rightarrow> message_row \<Rightarrow> message_row list" where
  "stored env table row = (if accepts env table row then [row] else [])"


section \<open>Properties of the keyword responder\<close>

lemma startsWith_iff: "startsWith s k = (\<exists>t. s = k @ t)"
  by (induction s k rule: startsWith.induct) auto

lemma js_includes_iff: "js_includes s k = (\<exists>p t. s = p @ k @ t)"
proof (induction s)
  case Nil
  then show ?case by auto
next
  case (Cons c cs)
  show ?case
  proof
    assume "js_includes (c # cs) k"
    then consider "startsWith (c # cs) k" | "js_includes cs k" by auto
    then show "\<exists>p t. c # cs = p @ k @ t"
    proof cases
      case 1
      then obtain t where "c # cs = k @ t" by (auto simp: startsWith_iff)
      then have "c # cs = [] @ k @ t" by simp
      then show ?thesis by blast
    next
      case 2
      then obtain p t where "cs = p @ k @ t" using Cons.IH by auto
      then have "c # cs = (c # p) @ k @ t" by simp
      then show ?thesis by blast
    qed
  next
    assume "\<exists>p t. c # cs = p @ k @ t"
    then obtain p t where e: "c # cs = p @ k @ t" by blast
    show "js_includes (c # cs) k"
    proof (cases p)
      case Nil
      with e have "startsWith (c # cs) k" by (auto simp: startsWith_iff)
      then show ?thesis by simp
    next
      case (Cons a p')
      with e have "cs = p' @ k @ t" by simp
      then have "js_includes cs k" using Cons.IH by blast
      then show ?thesis by simp
    qed
  qed
qed

text \<open>
  C8. An input whose lower-cased form contains a crisis keyword gets the crisis
  response, which names the 988 lifeline, whatever the runtime's \<open>toLowerCase\<close> and
  random index, the conversation history and the other keywords in the input.
\<close>

theorem crisis_keyword_gives_crisis_response:
  assumes "keyword \<in> set crisisKeywords"
    and "js_includes (toLowerCase rt userInput) keyword"
  shows "generateTherapistResponse rt userInput conversationHistory = Some crisisResponse
         \<and> js_includes crisisResponse ''(988)''"
proof -
  from assms
  have "list_ex (\<lambda>keyword. js_includes (toLowerCase rt userInput) keyword) crisisKeywords"
    unfolding list_ex_iff by blast
  then have "generateTherapistResponse rt userInput conversationHistory = Some crisisResponse"
    by (simp add: generateTherapistResponse_def)
  moreover have "js_includes crisisResponse ''(988)''"
    unfolding crisisResponse_def by code_simp
  ultimately show ?thesis by simp
qed

theorem crisis_keyword_gives_crisis_response_witness:
  "''hopeless'' \<in> set crisisKeywords
   \<and> js_includes
        (toLowerCase ascii_responder_env ''I feel HOPELESS and anxious, therapy did not help'')
        ''hopeless''
   \<and> generateTherapistResponse ascii_responder_env
        ''I feel HOPELESS and anxious, therapy did not help'' [''earlier message''] =
       Some crisisResponse
   \<and> ''kill'' \<in> set crisisKeywords
   \<and> js_includes (toLowerCase kelvin_responder_env ([CHR 0xE2, CHR 0x84, CHR 0xAA] @ ''ill''))
        ''kill''
   \<and> generateTherapistResponse kelvin_responder_env ([CHR 0xE2, CHR 0x84, CHR 0xAA] @ ''ill'')
        [''earlier message''] = Some crisisResponse"
proof -
  have k: "''hopeless'' \<in> set crisisKeywords"
    by (simp add: crisisKeywords_def)
  have i: "js_includes
      (toLowerCase ascii_responder_env ''I feel HOPELESS and anxious, therapy did not help'')
      ''hopeless''"
    unfolding ascii_responder_env_def by code_simp
  have k': "''kill'' \<in> set crisisKeywords"
    by (simp add: crisisKeywords_def)
  have i': "js_includes
      (toLowerCase kelvin_responder_env ([CHR 0xE2, CHR 0x84, CHR 0xAA] @ ''ill'')) ''kill''"
    unfolding kelvin_responder_env_def by code_simp
  show ?thesis
    using k i k' i'
      crisis_keyword_gives_crisis_response [OF k i, of "[''earlier message'']"]
      crisis_keyword_gives_crisis_response [OF k' i', of "[''earlier message'']"]
    by simp
qed


section \<open>Properties of the string functions\<close>

lemma white_all:
  "list_all (\<lambda>w. w \<noteq> [] \<and> (\<forall>t. find (\<lambda>v. startsWith (w @ t) v) white_space = Some w)) white_space"
  by (simp add: white_space_def)

lemma white_space_prefix:
  "w \<in> set white_space \<Longrightarrow> seq_prefix white_space (w @ t) = length w \<and> w \<noteq> []"
  using white_all unfolding list_all_iff seq_prefix_def by auto

lemma seq_prefix_Nil: "seq_prefix seqs [] = 0"
proof (induction seqs)
  case Nil
  then show ?case by (simp add: seq_prefix_def)
next
  case (Cons w ws)
  then show ?case by (cases w) (simp_all add: seq_prefix_def)
qed

lemma strip_Nil: "strip seqs [] = []"
  by (subst strip.simps) (simp add: seq_prefix_Nil)

lemma strip_fixed: "seq_prefix seqs s = 0 \<Longrightarrow> strip seqs s = s"
  by (subst strip.simps) simp

lemma strip_white:
  "set ws \<subseteq> set white_space \<Longrightarrow> strip white_space (concat ws) = []"
proof (induction ws)
  case Nil
  then show ?case by (simp add: strip_Nil)
next
  case (Cons w ws)
  then have w: "w \<in> set white_space" and r: "set ws \<subseteq> set white_space" by auto
  from white_space_prefix [OF w, of "concat ws"]
  have p: "seq_prefix white_space (w @ concat ws) = length w" and n: "w \<noteq> []" by auto
  have "strip white_space (w @ concat ws) = strip white_space (concat ws)"
    by (subst strip.simps) (simp add: p n)
  with Cons.IH [OF r] show ?case by simp
qed

lemma trim_white: "set ws \<subseteq> set white_space \<Longrightarrow> trim (concat ws) = []"
  by (simp add: trim_def trimStart_def trimEnd_def strip_white strip_Nil)

lemma startsWith_append: "startsWith s w \<Longrightarrow> s = w @ drop (length w) s"
  by (induction s w rule: startsWith.induct) auto

lemma seq_prefix_found:
  assumes "seq_prefix seqs s \<noteq> 0"
  shows "\<exists>w \<in> set seqs. s = w @ drop (seq_prefix seqs s) s"
proof -
  from assms obtain w where f: "find (\<lambda>w. startsWith s w) seqs = Some w"
    by (auto simp add: seq_prefix_def split: option.splits)
  then have "w \<in> set seqs" and "startsWith s w"
    by (auto simp add: find_Some_iff)
  with f startsWith_append [of s w] show ?thesis
    by (auto simp add: seq_prefix_def)
qed

lemma strip_empty:
  "strip seqs s = [] \<Longrightarrow> \<exists>ws. set ws \<subseteq> set seqs \<and> s = concat ws"
proof (induction seqs s rule: strip.induct)
  case (1 seqs s)
  show ?case
  proof (cases "seq_prefix seqs s = 0")
    case True
    with "1.prems" have "s = []" by (simp add: strip_fixed)
    then have "set [] \<subseteq> set seqs \<and> s = concat []" by simp
    then show ?thesis by blast
  next
    case False
    with "1.prems" have "strip seqs (drop (seq_prefix seqs s) s) = []"
      by (subst (asm) strip.simps) simp
    from "1.IH" [OF False this] obtain ws where
      ws: "set ws \<subseteq> set seqs" "drop (seq_prefix seqs s) s = concat ws" by blast
    from seq_prefix_found [OF False] obtain w where
      w: "w \<in> set seqs" "s = w @ drop (seq_prefix seqs s) s" by blast
    from ws w have "set (w # ws) \<subseteq> set seqs \<and> s = concat (w # ws)" by simp
    then show ?thesis by blast
  qed
qed

lemma strip_stripped: "seq_prefix seqs (strip seqs s) = 0"
proof (induction seqs s rule: strip.induct)
  case (1 seqs s)
  show ?case
  proof (cases "seq_prefix seqs s = 0")
    case True
    then show ?thesis by (simp add: strip_fixed)
  next
    case False
    have "strip seqs s = strip seqs (drop (seq_prefix seqs s) s)"
      using False by (subst strip.simps) simp
    with "1.IH" [OF False] show ?thesis by simp
  qed
qed

lemma rev_white:
  assumes "set rs \<subseteq> set (map rev white_space)"
  shows "set (map rev (rev rs)) \<subseteq> set white_space"
proof
  fix x assume "x \<in> set (map rev (rev rs))"
  then obtain r where r: "r \<in> set rs" "x = rev r" by auto
  with assms obtain w where "w \<in> set white_space" "r = rev w" by auto
  with r show "x \<in> set white_space" by simp
qed

lemma trim_empty:
  assumes "trim s = []"
  shows "\<exists>ws. set ws \<subseteq> set white_space \<and> s = concat ws"
proof -
  define t where "t = strip white_space s"
  from assms have "rev (strip (map rev white_space) (rev t)) = []"
    unfolding trim_def trimStart_def trimEnd_def t_def .
  then have e: "strip (map rev white_space) (rev t) = []"
    by (simp only: rev_is_Nil_conv)
  have "t = []"
  proof (rule ccontr)
    assume ne: "t \<noteq> []"
    from strip_empty [OF e] obtain rs where
      rs: "set rs \<subseteq> set (map rev white_space)" and c: "rev t = concat rs" by blast
    have "rev (rev t) = rev (concat rs)" by (simp only: c)
    then have tc: "t = concat (map rev (rev rs))" by (simp only: rev_rev_ident rev_concat)
    have "strip white_space (concat (map rev (rev rs))) = []"
      by (rule strip_white) (rule rev_white [OF rs])
    then have 1: "strip white_space t = []" by (simp only: tc [symmetric])
    have "seq_prefix white_space t = 0" unfolding t_def by (rule strip_stripped)
    then have 2: "strip white_space t = t" by (rule strip_fixed)
    from 1 2 ne show False by simp
  qed
  then have "strip white_space s = []" by (simp only: t_def)
  then show ?thesis by (rule strip_empty)
qed

lemma trim_fixed:
  "seq_prefix white_space s = 0 \<Longrightarrow> seq_prefix (map rev white_space) (rev s) = 0 \<Longrightarrow> trim s = s"
  by (simp add: trim_def trimStart_def trimEnd_def strip_fixed)

lemma trim_empty_iff:
  "trim s = [] \<longleftrightarrow> (\<exists>ws. set ws \<subseteq> set white_space \<and> s = concat ws)"
  using trim_empty [of s] trim_white by blast


section \<open>Properties of the chat hook\<close>

subsection \<open>Reconnection\<close>

lemma no_timeout_onError: "filter is_SetTimeout (call_onError opts v) = []"
  by (simp add: call_onError_def)

lemma no_timeout_onConnectionChange: "filter is_SetTimeout (call_onConnectionChange opts b) = []"
  by (simp add: call_onConnectionChange_def)

text \<open>
  C3, as the code has it. The attempt counter is incremented before the delay is
  computed: the \<open>n\<close>-th attempt after a close (\<open>1 \<le> n \<le> 5\<close>) is scheduled after
  \<open>min (1000 * 2 ^ n) 30000\<close> milliseconds, that is after 2, 4, 8, 16 and 30 seconds.
\<close>

theorem backoff_delay:
  assumes "1 \<le> n" and "n \<le> 5" and "reconnectAttempts s = n - 1"
  shows "attemptReconnect opts s =
     (s\<lparr>reconnectAttempts := n, reconnectTimeoutRef := Some (min (1000 * 2 ^ n) 30000)\<rparr>,
      [SetTimeout (min (1000 * 2 ^ n) 30000)])
    \<and> map (\<lambda>k. min (1000 * 2 ^ k) (30000::nat)) [1, 2, 3, 4, 5] = [2000, 4000, 8000, 16000, 30000]"
  using assms by (auto simp add: attemptReconnect_def maxReconnectAttempts_def Let_def)

theorem backoff_delay_witness:
  "(1::nat) \<le> 5 \<and> reconnectAttempts (initial_state\<lparr>reconnectAttempts := 4\<rparr>) = 5 - 1
   \<and> snd (attemptReconnect example_options (initial_state\<lparr>reconnectAttempts := 4\<rparr>)) =
       [SetTimeout 30000]"
proof -
  have h: "reconnectAttempts (initial_state\<lparr>reconnectAttempts := 4\<rparr>) = 5 - 1"
    by simp
  show ?thesis
    using h backoff_delay [of 5 "initial_state\<lparr>reconnectAttempts := 4\<rparr>" example_options]
    by simp
qed

text \<open>
  The first retry is scheduled after 2000 ms, not after the 1000 ms that C3 states.
\<close>

theorem first_retry_waits_two_seconds:
  "snd (ws_onclose example_options initial_state) = [OnConnectionChange False, SetTimeout 2000]
   \<and> snd (attemptReconnect example_options initial_state) \<noteq> [SetTimeout 1000]"
  by (simp add: ws_onclose_def attemptReconnect_def maxReconnectAttempts_def Let_def
      initial_state_def call_onConnectionChange_def example_options_def)

subsection \<open>Messages of the socket\<close>

lemma get_prop_cases:
  "get_prop v name = Inl TypeError \<and> prop_of v name = JUndefined
   \<or> get_prop v name = Inr (prop_of v name)"
  by (cases v) (auto simp: prop_of_def)

lemma handle_null:
  "get_prop data ''type'' = Inl e \<Longrightarrow> ws_onmessage opts clk (Some data) s = (s, [])"
  by (simp add: ws_onmessage_def handleWebSocketMessage_def)

lemma handle_tag:
  "get_prop data ''type'' = Inr ty \<Longrightarrow>
   ws_onmessage opts clk (Some data) s =
     (if ty = JStr ''chat_response'' then
        (s\<lparr>messages := messages s @
              [\<lparr>msg_id = show_nat (date_now clk), msg_sender = Ai,
                msg_timestamp = time_text clk, msg_reactions = Some no_reactions,
                userReaction = None, others = prop_of data ''data''\<rparr>],
            isTyping := JBool False, messageCount := messageCount s + 1\<rparr>, [])
      else if ty = JStr ''typing'' then (s\<lparr>isTyping := prop_of data ''isTyping''\<rparr>, [])
      else if ty = JStr ''error'' then
        (s\<lparr>isTyping := JBool False\<rparr>, call_onError opts (prop_of data ''message''))
      else (s, []))"
  by (simp add: ws_onmessage_def handleWebSocketMessage_def Let_def)

lemma tags_distinct:
  "JStr ''chat_response'' \<noteq> JStr ''typing''" "JStr ''chat_response'' \<noteq> JStr ''error''"
  "JStr ''typing'' \<noteq> JStr ''error''" "JStr ''typing'' \<noteq> JStr ''chat_response''"
  "JStr ''error'' \<noteq> JStr ''chat_response''" "JStr ''error'' \<noteq> JStr ''typing''"
  by simp_all

lemma dispatch_chat_response:
  assumes "prop_of data ''type'' = JStr ''chat_response''"
  shows "\<exists>m. msg_sender m = Ai \<and>
           ws_onmessage opts clk (Some data) s =
             (s\<lparr>messages := messages s @ [m], isTyping := JBool False,
                messageCount := messageCount s + 1\<rparr>, [])"
proof -
  from assms have g: "get_prop data ''type'' = Inr (JStr ''chat_response'')"
    using get_prop_cases [of data "''type''"] by auto
  let ?m = "\<lparr>msg_id = show_nat (date_now clk), msg_sender = Ai,
                msg_timestamp = time_text clk, msg_reactions = Some no_reactions,
                userReaction = None, others = prop_of data ''data''\<rparr>"
  have "msg_sender ?m = Ai" by simp
  moreover have "ws_onmessage opts clk (Some data) s =
             (s\<lparr>messages := messages s @ [?m], isTyping := JBool False,
                messageCount := messageCount s + 1\<rparr>, [])"
    by (simp only: handle_tag [OF g] simp_thms if_True)
  ultimately show ?thesis by blast
qed

lemma dispatch_typing:
  assumes "prop_of data ''type'' = JStr ''typing''"
  shows "ws_onmessage opts clk (Some data) s = (s\<lparr>isTyping := prop_of data ''isTyping''\<rparr>, [])"
proof -
  from assms have g: "get_prop data ''type'' = Inr (JStr ''typing'')"
    using get_prop_cases [of data "''type''"] by auto
  show ?thesis by (simp only: handle_tag [OF g] tags_distinct simp_thms if_True if_False)
qed

lemma dispatch_error:
  assumes "prop_of data ''type'' = JStr ''error''"
  shows "ws_onmessage opts clk (Some data) s =
          (s\<lparr>isTyping := JBool False\<rparr>, call_onError opts (prop_of data ''message''))"
proof -
  from assms have g: "get_prop data ''type'' = Inr (JStr ''error'')"
    using get_prop_cases [of data "''type''"] by auto
  show ?thesis by (simp only: handle_tag [OF g] tags_distinct simp_thms if_True if_False)
qed

lemma dispatch_other:
  assumes "prop_of data ''type'' \<noteq> JStr ''chat_response''"
    and "prop_of data ''type'' \<noteq> JStr ''typing''"
    and "prop_of data ''type'' \<noteq> JStr ''error''"
  shows "ws_onmessage opts clk (Some data) s = (s, [])"
proof (cases "get_prop data ''type''")
  case (Inl e)
  then show ?thesis by (rule handle_null)
next
  case (Inr ty)
  then have t: "prop_of data ''type'' = ty" by (simp add: prop_of_def)
  show ?thesis using assms unfolding t by (simp only: handle_tag [OF Inr] if_False)
qed

text \<open>
  C5. A message of the socket is dispatched on its \<open>type\<close>: \<open>chat_response\<close> appends
  one message of sender \<open>ai\<close>, clears the typing indicator and adds one to the
  message count; \<open>typing\<close> sets the indicator to the message's \<open>isTyping\<close>; \<open>error\<close>
  calls \<open>onError\<close> with the message's \<open>message\<close> and clears the indicator; any other
  type, and a frame that is not JSON, leave the state as it is and do nothing.
\<close>

theorem websocket_message_dispatch:
  "(prop_of data ''type'' = JStr ''chat_response'' \<longrightarrow>
      (\<exists>m. msg_sender m = Ai \<and>
           ws_onmessage opts clk (Some data) s =
             (s\<lparr>messages := messages s @ [m], isTyping := JBool False,
                messageCount := messageCount s + 1\<rparr>, [])))
   \<and> (prop_of data ''type'' = JStr ''typing'' \<longrightarrow>
        ws_onmessage opts clk (Some data) s = (s\<lparr>isTyping := prop_of data ''isTyping''\<rparr>, []))
   \<and> (prop_of data ''type'' = JStr ''error'' \<longrightarrow>
        ws_onmessage opts clk (Some data) s =
          (s\<lparr>isTyping := JBool False\<rparr>, call_onError opts (prop_of data ''message'')))
   \<and> (prop_of data ''type'' \<noteq> JStr ''chat_response'' \<and> prop_of data ''type'' \<noteq> JStr ''typing''
        \<and> prop_of data ''type'' \<noteq> JStr ''error'' \<longrightarrow>
        ws_onmessage opts clk (Some data) s = (s, []))
   \<and> ws_onmessage opts clk None s = (s, [])"
proof -
  have "ws_onmessage opts clk None s = (s, [])"
    by (simp add: ws_onmessage_def)
  then show ?thesis
    using dispatch_chat_response [of data opts clk s] dispatch_typing [of data opts clk s]
      dispatch_error [of data opts clk s] dispatch_other [of data opts clk s]
    by blast
qed

theorem websocket_message_dispatch_witness:
  "prop_of (JObj [(''type'', JStr ''chat_response''), (''data'', JObj [(''content'', JStr ''Hello'')])])
      ''type'' = JStr ''chat_response''
   \<and> map msg_sender (messages (fst (ws_onmessage example_options example_clock
         (Some (JObj [(''type'', JStr ''chat_response''),
                      (''data'', JObj [(''content'', JStr ''Hello'')])])) initial_state))) = [Ai]
   \<and> messageCount (fst (ws_onmessage example_options example_clock
         (Some (JObj [(''type'', JStr ''chat_response''),
                      (''data'', JObj [(''content'', JStr ''Hello'')])])) initial_state)) = 1
   \<and> prop_of (JObj [(''type'', JStr ''typing''), (''isTyping'', JBool True)]) ''type'' = JStr ''typing''
   \<and> ws_onmessage example_options example_clock
         (Some (JObj [(''type'', JStr ''typing''), (''isTyping'', JBool True)])) initial_state =
       (initial_state\<lparr>isTyping := JBool True\<rparr>, [])
   \<and> prop_of (JObj [(''type'', JStr ''error''), (''message'', JStr ''overloaded'')]) ''type'' =
       JStr ''error''
   \<and> ws_onmessage example_options example_clock
         (Some (JObj [(''type'', JStr ''error''), (''message'', JStr ''overloaded'')]))
         (initial_state\<lparr>isTyping := JBool True\<rparr>) =
       (initial_state\<lparr>isTyping := JBool False\<rparr>, [OnError (JStr ''overloaded'')])
   \<and> prop_of (JObj [(''type'', JStr ''pong'')]) ''type'' \<noteq> JStr ''chat_response''
   \<and> prop_of (JObj [(''type'', JStr ''pong'')]) ''type'' \<noteq> JStr ''typing''
   \<and> prop_of (JObj [(''type'', JStr ''pong'')]) ''type'' \<noteq> JStr ''error''
   \<and> ws_onmessage example_options example_clock (Some (JObj [(''type'', JStr ''pong'')]))
         initial_state = (initial_state, [])"
proof -
  let ?chat = "JObj [(''type'', JStr ''chat_response''), (''data'', JObj [(''content'', JStr ''Hello'')])]"
  let ?typing = "JObj [(''type'', JStr ''typing''), (''isTyping'', JBool True)]"
  let ?error = "JObj [(''type'', JStr ''error''), (''message'', JStr ''overloaded'')]"
  let ?pong = "JObj [(''type'', JStr ''pong'')]"
  have c: "prop_of ?chat ''type'' = JStr ''chat_response''"
    by (simp add: prop_of_def)
  have t: "prop_of ?typing ''type'' = JStr ''typing''"
    and t': "prop_of ?typing ''isTyping'' = JBool True"
    by (simp_all add: prop_of_def)
  have e: "prop_of ?error ''type'' = JStr ''error''"
    and e': "prop_of ?error ''message'' = JStr ''overloaded''"
    by (simp_all add: prop_of_def)
  have p: "prop_of ?pong ''type'' = JStr ''pong''"
    by (simp add: prop_of_def)
  have p': "JStr ''pong'' \<noteq> JStr ''chat_response''" "JStr ''pong'' \<noteq> JStr ''typing''"
    "JStr ''pong'' \<noteq> JStr ''error''"
    by simp_all
  from c websocket_message_dispatch [of ?chat example_options example_clock initial_state]
  obtain m where m: "msg_sender m = Ai"
    and r: "ws_onmessage example_options example_clock (Some ?chat) initial_state =
       (initial_state\<lparr>messages := messages initial_state @ [m], isTyping := JBool False,
                      messageCount := messageCount initial_state + 1\<rparr>, [])"
    by blast
  have 1: "map msg_sender (messages (fst (ws_onmessage example_options example_clock
         (Some ?chat) initial_state))) = [Ai]"
    unfolding r using m by (simp add: initial_state_def)
  have 2: "messageCount (fst (ws_onmessage example_options example_clock
         (Some ?chat) initial_state)) = 1"
    unfolding r by (simp add: initial_state_def)
  from t websocket_message_dispatch [of ?typing example_options example_clock initial_state]
  have 3: "ws_onmessage example_options example_clock (Some ?typing) initial_state =
       (initial_state\<lparr>isTyping := JBool True\<rparr>, [])"
    unfolding t' by blast
  from e websocket_message_dispatch [of ?error example_options example_clock
      "initial_state\<lparr>isTyping := JBool True\<rparr>"]
  have "ws_onmessage example_options example_clock (Some ?error)
         (initial_state\<lparr>isTyping := JBool True\<rparr>) =
       (initial_state\<lparr>isTyping := JBool True, isTyping := JBool False\<rparr>,
        call_onError example_options (JStr ''overloaded''))"
    unfolding e' by blast
  then have 4: "ws_onmessage example_options example_clock (Some ?error)
         (initial_state\<lparr>isTyping := JBool True\<rparr>) =
       (initial_state\<lparr>isTyping := JBool False\<rparr>, [OnError (JStr ''overloaded'')])"
    by (simp add: call_onError_def example_options_def)
  from p p' websocket_message_dispatch [of ?pong example_options example_clock initial_state]
  have 5: "ws_onmessage example_options example_clock (Some ?pong) initial_state =
       (initial_state, [])"
    by simp
  show ?thesis
    unfolding p using c t e p' 1 2 3 4 5 by blast
qed

subsection \<open>The message counter\<close>

lemma formatHistory_length:
  "formatHistory rt opts i items = Inr ms \<Longrightarrow> length ms = length items"
  by (induction items arbitrary: i ms) (auto split: sum.splits)

lemma connect_count: "count_ok s \<Longrightarrow> count_ok (fst (connectWebSocket env opts created s))"
  by (simp add: connectWebSocket_def count_ok_def)

lemma init_count:
  assumes "count_ok s"
  shows "count_ok (fst (initializeChat env rt opts created s))"
proof (cases "api_checkHealth env \<and> length_positive rt (api_getSessionHistory env (sessionId opts))")
  case False
  then show ?thesis using assms connect_count [OF assms, of env opts created]
    by (auto simp add: initializeChat_def Let_def)
next
  case True
  show ?thesis
  proof (cases "api_getSessionHistory env (sessionId opts)")
    case (JArr items)
    show ?thesis
    proof (cases "formatHistory rt opts 0 items")
      case (Inl e)
      then show ?thesis using True JArr assms by (simp add: initializeChat_def)
    next
      case (Inr formatted)
      have "count_ok (s\<lparr>messages := formatted, messageCount := length items\<rparr>)"
        using formatHistory_length [OF Inr] by (simp add: count_ok_def)
      then show ?thesis using True JArr Inr
        by (simp add: initializeChat_def connect_count)
    qed
  qed (use True assms in \<open>simp_all add: initializeChat_def\<close>)
qed

lemma onmessage_count:
  assumes "count_ok s"
  shows "count_ok (fst (ws_onmessage opts clk parsed s))"
proof (cases parsed)
  case None
  then show ?thesis using assms by (simp add: ws_onmessage_def)
next
  case (Some data)
  show ?thesis
  proof (cases "get_prop data ''type''")
    case (Inl e)
    then show ?thesis using assms Some handle_null by simp
  next
    case (Inr ty)
    show ?thesis unfolding Some handle_tag [OF Inr] using assms
      by (simp add: count_ok_def)
  qed
qed

lemma onclose_count: "count_ok s \<Longrightarrow> count_ok (fst (ws_onclose opts s))"
  by (simp add: ws_onclose_def attemptReconnect_def Let_def count_ok_def)

lemma begin_count: "count_ok s \<Longrightarrow> count_ok (fst (sendMessage_begin opts clk content ctx s))"
  by (simp add: sendMessage_begin_def Let_def count_ok_def)

lemma settle_count: "count_ok s \<Longrightarrow> count_ok (fst (sendMessage_settle opts clk result s))"
  by (cases result) (simp_all add: sendMessage_settle_def Let_def count_ok_def)

lemma react_count: "count_ok s \<Longrightarrow> count_ok (fst (addReaction messageId reactionType s))"
  by (simp add: addReaction_def count_ok_def)

lemma send_count:
  assumes c: "count_ok s"
  shows "count_ok (fst (sendMessage env opts clk clk' content ctx s))"
proof -
  obtain s1 effs pending where b: "sendMessage_begin opts clk content ctx s = (s1, effs, pending)"
    by (metis prod_cases3)
  have c1: "count_ok s1" using begin_count [OF c, of opts clk content ctx] b by simp
  show ?thesis
  proof (cases pending)
    case None
    then show ?thesis using b c1 by (simp add: sendMessage_def)
  next
    case (Some request)
    then show ?thesis
      using b settle_count [OF c1, of opts clk' "api_sendMessage env request"]
      by (auto simp add: sendMessage_def split: prod.splits)
  qed
qed

lemma step_count:
  assumes "count_ok s"
  shows "count_ok (fst (hook_step opts ev s))"
proof (cases ev)
  case (Send clk content ctx)
  then show ?thesis using begin_count [OF assms, of opts clk content ctx]
    by (auto split: prod.splits)
next
  case (Initialize env rt created)
  then show ?thesis using init_count [OF assms] by simp
next
  case (SocketMessage clk parsed)
  then show ?thesis using onmessage_count [OF assms] by simp
next
  case SocketClose
  then show ?thesis using onclose_count [OF assms] by simp
next
  case (RestSettled clk result)
  then show ?thesis using settle_count [OF assms] by simp
next
  case (React messageId reactionType)
  then show ?thesis using react_count [OF assms] by simp
next
  case (TimerFired env created)
  then show ?thesis using connect_count [OF assms] by (simp add: reconnect_timer_def)
qed (use assms in \<open>simp_all add: ws_onopen_def ws_onerror_def cleanup_def count_ok_def\<close>)

lemma run_count: "count_ok s \<Longrightarrow> count_ok (fst (run opts evs s))"
proof (induction evs arbitrary: s)
  case Nil
  then show ?case by simp
next
  case (Cons ev evs)
  from Cons.prems have "count_ok (fst (hook_step opts ev s))" by (rule step_count)
  then have "count_ok (fst (run opts evs (fst (hook_step opts ev s))))" by (rule Cons.IH)
  then show ?case by (simp add: split_beta Let_def)
qed

text \<open>
  C9. \<open>messageCount = messages.length\<close> is an invariant of the hook: it holds in the
  initial state; every event of the hook (loading the history, an event of the
  socket, the reconnect timer, the start of a send, the settling of the REST call, a
  reaction, the unmount) and every whole call of \<open>sendMessage\<close> preserve it; so it
  holds after every sequence of events.
\<close>

theorem message_count_invariant:
  "messageCount initial_state = length (messages initial_state)
   \<and> (messageCount s = length (messages s) \<longrightarrow>
        messageCount (fst (hook_step opts ev s)) = length (messages (fst (hook_step opts ev s)))
        \<and> messageCount (fst (sendMessage env opts clk clk' content ctx s)) =
            length (messages (fst (sendMessage env opts clk clk' content ctx s))))
   \<and> messageCount (fst (run opts evs initial_state)) =
       length (messages (fst (run opts evs initial_state)))"
proof -
  have i: "count_ok initial_state"
    by (simp add: count_ok_def initial_state_def)
  show ?thesis
    using i run_count [OF i, of opts evs] step_count [of s opts ev]
      send_count [of s env opts clk clk' content ctx]
    unfolding count_ok_def by blast
qed

theorem message_count_invariant_witness:
  "messageCount initial_state = length (messages initial_state)
   \<and> length (messages (fst (hook_step example_options
         (Send example_clock ''I feel stuck'' JUndefined) initial_state))) = 1
   \<and> messageCount (fst (hook_step example_options
         (Send example_clock ''I feel stuck'' JUndefined) initial_state)) = 1
   \<and> length (messages (fst (run example_options
         [Send example_clock ''I feel stuck'' JUndefined,
          RestSettled example_clock (Inr (JObj [(''content'', JStr ''Tell me more.'')]))]
         initial_state))) = 2
   \<and> messageCount (fst (run example_options
         [Send example_clock ''I feel stuck'' JUndefined,
          RestSettled example_clock (Inr (JObj [(''content'', JStr ''Tell me more.'')]))]
         initial_state)) = 2"
proof -
  let ?send = "Send example_clock ''I feel stuck'' JUndefined"
  let ?reply = "RestSettled example_clock (Inr (JObj [(''content'', JStr ''Tell me more.'')]))"
  have "trim ''I feel stuck'' = ''I feel stuck''"
    by (rule trim_fixed) (simp_all add: seq_prefix_def white_space_def)
  then have t: "trim ''I feel stuck'' \<noteq> []"
    by simp
  have i: "messageCount initial_state = length (messages initial_state)"
    by (simp add: initial_state_def)
  have 1: "length (messages (fst (hook_step example_options ?send initial_state))) = 1"
    by (simp add: sendMessage_begin_def t Let_def initial_state_def)
  have 2: "length (messages (fst (run example_options [?send, ?reply] initial_state))) = 2"
    by (simp add: sendMessage_begin_def sendMessage_settle_def t Let_def initial_state_def)
  note inv = message_count_invariant [of initial_state example_options ?send offline_env
      example_clock example_clock "''I feel stuck''" JUndefined "[?send, ?reply]"]
  from inv i have "messageCount (fst (hook_step example_options ?send initial_state)) =
      length (messages (fst (hook_step example_options ?send initial_state)))"
    by blast
  then have 3: "messageCount (fst (hook_step example_options ?send initial_state)) = 1"
    using 1 by simp
  from inv have "messageCount (fst (run example_options [?send, ?reply] initial_state)) =
      length (messages (fst (run example_options [?send, ?reply] initial_state)))"
    by blast
  then have 4: "messageCount (fst (run example_options [?send, ?reply] initial_state)) = 2"
    using 2 by simp
  show ?thesis
    using i 1 2 3 4 by blast
qed

subsection \<open>Blank input\<close>

text \<open>
  C10. \<open>sendMessage\<close> with a content that is empty or consists of white space only
  (any sequence of the characters \<open>trim\<close> strips) returns at once: the state
  (messages, message count, typing indicator and the rest) is the one before, and
  there is no effect, so nothing goes to the socket or to the REST API.
\<close>

theorem blank_message_is_noop:
  assumes "set ws \<subseteq> set white_space" and "content = concat ws"
  shows "sendMessage env opts clk clk' content ctx s = (s, [])
    \<and> sendMessage_begin opts clk content ctx s = (s, [], None)"
  using assms by (simp add: sendMessage_def sendMessage_begin_def trim_white)

theorem blank_message_is_noop_witness:
  "set [[CHR 0xC2, CHR 0xA0], [CHR 0x20], [CHR 0x09], [CHR 0xE2, CHR 0x80, CHR 0xA8]]
     \<subseteq> set white_space
   \<and> [CHR 0xC2, CHR 0xA0, CHR 0x20, CHR 0x09, CHR 0xE2, CHR 0x80, CHR 0xA8] =
       concat [[CHR 0xC2, CHR 0xA0], [CHR 0x20], [CHR 0x09], [CHR 0xE2, CHR 0x80, CHR 0xA8]]
   \<and> sendMessage offline_env example_options example_clock example_clock
        [CHR 0xC2, CHR 0xA0, CHR 0x20, CHR 0x09, CHR 0xE2, CHR 0x80, CHR 0xA8] JUndefined
        (initial_state\<lparr>wsRef := Some OPEN\<rparr>) =
       (initial_state\<lparr>wsRef := Some OPEN\<rparr>, [])
   \<and> sendMessage offline_env example_options example_clock example_clock
        [] JUndefined initial_state = (initial_state, [])"
proof -
  let ?ws = "[[CHR 0xC2, CHR 0xA0], [CHR 0x20], [CHR 0x09], [CHR 0xE2, CHR 0x80, CHR 0xA8]]"
  have h: "set ?ws \<subseteq> set white_space"
    by (simp add: white_space_def)
  have c: "[CHR 0xC2, CHR 0xA0, CHR 0x20, CHR 0x09, CHR 0xE2, CHR 0x80, CHR 0xA8] = concat ?ws"
    by simp
  have e: "set [] \<subseteq> set white_space"
    by simp
  have c': "[] = concat ([] :: string list)"
    by simp
  show ?thesis
    using h c
      blank_message_is_noop [OF h c, of offline_env example_options example_clock example_clock
        JUndefined "initial_state\<lparr>wsRef := Some OPEN\<rparr>"]
      blank_message_is_noop [OF e c', of offline_env example_options example_clock example_clock
        JUndefined initial_state]
    by blast
qed

subsection \<open>The reconnect budget\<close>

lemma quiet_connect: "quiet s (connectWebSocket env opts created s)"
  by (simp add: quiet_def connectWebSocket_def no_timeout_onConnectionChange)

lemma quiet_init: "quiet s (initializeChat env rt opts created s)"
proof -
  have c: "\<And>s'. reconnectAttempts s' = reconnectAttempts s \<Longrightarrow>
      quiet s (connectWebSocket env opts created s')"
    by (simp add: quiet_def connectWebSocket_def no_timeout_onConnectionChange)
  show ?thesis
    by (auto simp add: initializeChat_def Let_def c no_timeout_onError quiet_def [of s "(s, _)"]
        split: jsval.splits sum.splits)
qed

lemma quiet_onmessage: "quiet s (ws_onmessage opts clk parsed s)"
proof (cases parsed)
  case None
  then show ?thesis by (simp add: ws_onmessage_def quiet_def)
next
  case (Some data)
  show ?thesis
  proof (cases "get_prop data ''type''")
    case (Inl e)
    then show ?thesis using Some handle_null [OF Inl] by (simp add: quiet_def)
  next
    case (Inr ty)
    show ?thesis unfolding Some handle_tag [OF Inr]
      by (simp add: quiet_def no_timeout_onError)
  qed
qed

lemma quiet_begin:
  "quiet s (fst (sendMessage_begin opts clk content ctx s), fst (snd (sendMessage_begin opts clk content ctx s)))"
  by (simp add: sendMessage_begin_def Let_def quiet_def)

lemma quiet_settle: "quiet s (sendMessage_settle opts clk result s)"
  by (cases result) (simp_all add: sendMessage_settle_def Let_def quiet_def no_timeout_onError)

lemma quiet_cleanup: "quiet s (cleanup s)"
  by (simp add: cleanup_def quiet_def split: option.splits)

lemma quiet_step:
  assumes "ev \<noteq> SocketOpen" and "ev \<noteq> SocketClose"
  shows "quiet s (hook_step opts ev s)"
proof (cases ev)
  case (Send clk content ctx)
  then show ?thesis using quiet_begin [of s opts clk content ctx]
    by (simp add: split_beta)
qed (use assms in \<open>simp_all add: quiet_init quiet_onmessage quiet_settle quiet_cleanup quiet_connect
      reconnect_timer_def\<close>, simp_all add: quiet_def ws_onerror_def addReaction_def
      no_timeout_onConnectionChange)

lemma close_budget:
  assumes "reconnectAttempts s \<le> maxReconnectAttempts"
  shows "reconnectAttempts (fst (ws_onclose opts s)) =
           reconnectAttempts s + length (filter is_SetTimeout (snd (ws_onclose opts s)))
    \<and> reconnectAttempts (fst (ws_onclose opts s)) \<le> maxReconnectAttempts"
  using assms
  by (simp add: ws_onclose_def attemptReconnect_def Let_def no_timeout_onConnectionChange
      no_timeout_onError)

lemma step_budget:
  assumes "ev \<noteq> SocketOpen" and "reconnectAttempts s \<le> maxReconnectAttempts"
  shows "reconnectAttempts (fst (hook_step opts ev s)) =
           reconnectAttempts s + length (filter is_SetTimeout (snd (hook_step opts ev s)))
    \<and> reconnectAttempts (fst (hook_step opts ev s)) \<le> maxReconnectAttempts"
proof (cases "ev = SocketClose")
  case True
  then show ?thesis using close_budget [OF assms(2), of opts] by auto
next
  case False
  from quiet_step [OF assms(1) False, of s opts] assms(2) show ?thesis
    by (simp add: quiet_def)
qed

lemma run_budget:
  assumes "SocketOpen \<notin> set evs" and "reconnectAttempts s \<le> maxReconnectAttempts"
  shows "reconnectAttempts (fst (run opts evs s)) =
           reconnectAttempts s + length (filter is_SetTimeout (snd (run opts evs s)))
    \<and> reconnectAttempts (fst (run opts evs s)) \<le> maxReconnectAttempts"
  using assms
proof (induction evs arbitrary: s)
  case Nil
  then show ?case by simp
next
  case (Cons ev evs)
  from Cons.prems have e: "ev \<noteq> SocketOpen" and r: "SocketOpen \<notin> set evs" by auto
  note st = step_budget [OF e Cons.prems(2), of opts]
  from st have "reconnectAttempts (fst (hook_step opts ev s)) \<le> maxReconnectAttempts" by simp
  from Cons.IH [OF r this] st show ?case
    by (simp add: split_beta Let_def)
qed

lemma reconnect_budget:
  assumes "SocketOpen \<notin> set evs"
  shows "length (filter is_SetTimeout (snd (run opts evs initial_state))) \<le> maxReconnectAttempts"
proof -
  have "reconnectAttempts initial_state \<le> maxReconnectAttempts"
    by (simp add: initial_state_def)
  from run_budget [OF assms this, of opts] show ?thesis
    by (simp add: initial_state_def)
qed

text \<open>
  C2. With the attempt counter at its maximum of 5, a close of the socket changes
  nothing but the connection flag and the socket's state, sets no timer, and calls
  \<open>onError\<close> (when the callback is supplied) with the text
  \<open>Connection lost. Please refresh the page.\<close> And in a sequence of events
  in which no socket opens, at most 5 reconnect timers are set.
\<close>

theorem reconnect_stops_after_five_failures:
  assumes "reconnectAttempts s = maxReconnectAttempts"
  shows "maxReconnectAttempts = 5
    \<and> attemptReconnect opts s =
        (s, call_onError opts (JStr ''Connection lost. Please refresh the page.''))
    \<and> fst (ws_onclose opts s) = s\<lparr>isConnected := False, wsRef := Some CLOSED\<rparr>
    \<and> filter is_SetTimeout (snd (ws_onclose opts s)) = []
    \<and> (onError opts \<longrightarrow>
          snd (ws_onclose opts s) =
            call_onConnectionChange opts False @
            [OnError (JStr ''Connection lost. Please refresh the page.'')])
    \<and> (SocketOpen \<notin> set evs \<longrightarrow>
          length (filter is_SetTimeout (snd (run opts evs initial_state))) \<le> 5)"
proof -
  have "SocketOpen \<notin> set evs \<longrightarrow>
      length (filter is_SetTimeout (snd (run opts evs initial_state))) \<le> 5"
    using reconnect_budget [of evs opts] by (simp add: maxReconnectAttempts_def)
  then show ?thesis
    using assms
    by (simp add: ws_onclose_def attemptReconnect_def call_onError_def
        no_timeout_onConnectionChange maxReconnectAttempts_def)
qed

theorem reconnect_stops_after_five_failures_witness:
  "reconnectAttempts (initial_state\<lparr>reconnectAttempts := 5\<rparr>) = maxReconnectAttempts
   \<and> onError example_options
   \<and> snd (ws_onclose example_options (initial_state\<lparr>reconnectAttempts := 5\<rparr>)) =
       [OnConnectionChange False, OnError (JStr ''Connection lost. Please refresh the page.'')]
   \<and> SocketOpen \<notin> set [SocketClose, SocketClose, SocketClose, SocketClose, SocketClose, SocketClose]
   \<and> length (filter is_SetTimeout (snd (run example_options
         [SocketClose, SocketClose, SocketClose, SocketClose, SocketClose, SocketClose]
         initial_state))) \<le> 5
   \<and> snd (run example_options
         [SocketClose, SocketClose, SocketClose, SocketClose, SocketClose, SocketClose]
         initial_state) =
       [OnConnectionChange False, SetTimeout 2000, OnConnectionChange False, SetTimeout 4000,
        OnConnectionChange False, SetTimeout 8000, OnConnectionChange False, SetTimeout 16000,
        OnConnectionChange False, SetTimeout 30000, OnConnectionChange False,
        OnError (JStr ''Connection lost. Please refresh the page.'')]"
proof -
  let ?closes = "[SocketClose, SocketClose, SocketClose, SocketClose, SocketClose, SocketClose]"
  have h: "reconnectAttempts (initial_state\<lparr>reconnectAttempts := 5\<rparr>) = maxReconnectAttempts"
    by (simp add: maxReconnectAttempts_def)
  have o: "onError example_options"
    by (simp add: example_options_def)
  have c: "call_onConnectionChange example_options False = [OnConnectionChange False]"
    by (simp add: call_onConnectionChange_def example_options_def)
  have n: "SocketOpen \<notin> set ?closes"
    by simp
  note t = reconnect_stops_after_five_failures [OF h, of example_options ?closes]
  from o t
  have e: "snd (ws_onclose example_options (initial_state\<lparr>reconnectAttempts := 5\<rparr>)) =
       call_onConnectionChange example_options False @
       [OnError (JStr ''Connection lost. Please refresh the page.'')]"
    by blast
  from n t
  have b: "length (filter is_SetTimeout (snd (run example_options ?closes initial_state))) \<le> 5"
    by blast
  have r: "snd (run example_options ?closes initial_state) =
       [OnConnectionChange False, SetTimeout 2000, OnConnectionChange False, SetTimeout 4000,
        OnConnectionChange False, SetTimeout 8000, OnConnectionChange False, SetTimeout 16000,
        OnConnectionChange False, SetTimeout 30000, OnConnectionChange False,
        OnError (JStr ''Connection lost. Please refresh the page.'')]"
    by (simp add: ws_onclose_def attemptReconnect_def maxReconnectAttempts_def Let_def
        initial_state_def c call_onError_def o)
  show ?thesis
    using b r by (simp add: e c o maxReconnectAttempts_def)
qed


section \<open>Properties of the chat edge function\<close>

lemma store_and_reply_rows:
  "store_and_reply env session_id userId content table =
     (\<lparr>status = 200, resp_json = Some (stringify (generateTherapyResponse env content))\<rparr>,
      snd (db_insert env (ai_row session_id userId (generateTherapyResponse env content))
             (snd (db_insert env (user_row session_id userId content) table))))"
  by (simp add: store_and_reply_def Let_def split_beta)

lemma handle_post_Inr:
  assumes "handle_post env req table = Inr result"
  shows "\<exists>body. req_method req = ''POST'' \<and> req_body req = Some body
      \<and> truthy (prop_of body ''content'') \<and> truthy (prop_of body ''session_id'')
      \<and> result = store_and_reply env (prop_of body ''session_id'') (userId_of env req)
                    (prop_of body ''content'') table"
proof -
  from assms have m: "req_method req = ''POST''"
    by (simp add: handle_post_def split: if_splits)
  from assms m obtain body where b: "req_body req = Some body"
    by (cases "req_body req") (simp_all add: handle_post_def)
  from assms m b obtain content where c: "get_prop body ''content'' = Inr content"
    by (cases "get_prop body ''content''") (simp_all add: handle_post_def)
  from assms m b c obtain session_id where i: "get_prop body ''session_id'' = Inr session_id"
    by (cases "get_prop body ''session_id''") (simp_all add: handle_post_def)
  from assms m b c i have t: "truthy content \<and> truthy session_id"
    by (simp add: handle_post_def split: if_splits)
  from assms m b c i t
  have "result = store_and_reply env session_id (userId_of env req) content table"
    by (simp add: handle_post_def)
  then show ?thesis using m b c i t by (simp add: prop_of_def)
qed

lemma handle_post_status:
  assumes "status (fst (chat_handler env req table)) = 200" and "req_method req = ''POST''"
  shows "\<exists>result. handle_post env req table = Inr result \<and> chat_handler env req table = result"
  using assms by (cases "handle_post env req table") (simp_all add: chat_handler_def)

lemma db_insert_stored: "snd (db_insert env row table) = table @ stored env table row"
  by (simp add: db_insert_def stored_def)

lemma example_status: "status (fst (chat_handler example_edge_env example_request [])) = 200"
  by (simp add: chat_handler_def handle_post_def example_request_def store_and_reply_rows)

text \<open>
  C1, as the code has it. A \<open>POST\<close> that is answered with 200 has made two inserts
  into \<open>messages\<close>, the row of sender \<open>user\<close> and then the row of sender \<open>ai\<close>, for the
  session and the content of the request. An insert the database refuses is logged
  and nothing more, so the table grows by the accepted ones of these two rows: by
  exactly the \<open>user\<close> row and the \<open>ai\<close> row, in this order, when both are accepted.
\<close>

theorem chat_request_rows:
  assumes "req_method req = ''POST''"
    and "chat_handler env req table = (response, table')"
    and "status response = 200"
  shows "\<exists>body u a. req_body req = Some body
      \<and> u = user_row (prop_of body ''session_id'') (userId_of env req) (prop_of body ''content'')
      \<and> a = ai_row (prop_of body ''session_id'') (userId_of env req)
              (generateTherapyResponse env (prop_of body ''content''))
      \<and> row_sender u = ''user'' \<and> row_sender a = ''ai''
      \<and> table' = table @ stored env table u @ stored env (table @ stored env table u) a
      \<and> (accepts env table u \<and> accepts env (table @ [u]) a \<longrightarrow> table' = table @ [u, a])"
proof -
  from assms have "status (fst (chat_handler env req table)) = 200" by simp
  from handle_post_status [OF this assms(1)] assms(2)
  have "handle_post env req table = Inr (response, table')" by auto
  from handle_post_Inr [OF this] obtain body where b: "req_body req = Some body"
    and r: "(response, table') =
        store_and_reply env (prop_of body ''session_id'') (userId_of env req)
          (prop_of body ''content'') table"
    by blast
  let ?u = "user_row (prop_of body ''session_id'') (userId_of env req) (prop_of body ''content'')"
  let ?a = "ai_row (prop_of body ''session_id'') (userId_of env req)
              (generateTherapyResponse env (prop_of body ''content''))"
  from r have t: "table' = table @ stored env table ?u @ stored env (table @ stored env table ?u) ?a"
    by (simp add: store_and_reply_rows db_insert_stored)
  have s: "row_sender ?u = ''user''" "row_sender ?a = ''ai''"
    by (simp_all add: user_row_def ai_row_def)
  have "accepts env table ?u \<and> accepts env (table @ [?u]) ?a \<longrightarrow> table' = table @ [?u, ?a]"
    unfolding t by (simp add: stored_def)
  with b t s show ?thesis by blast
qed

theorem chat_request_rows_witness:
  "req_method example_request = ''POST''
   \<and> status (fst (chat_handler example_edge_env example_request [])) = 200
   \<and> map row_sender (snd (chat_handler example_edge_env example_request [])) = [''user'', ''ai'']"
proof -
  have m: "req_method example_request = ''POST''"
    by (simp add: example_request_def)
  have p: "chat_handler example_edge_env example_request [] =
      (fst (chat_handler example_edge_env example_request []),
       snd (chat_handler example_edge_env example_request []))"
    by simp
  have a: "\<And>t r. accepts example_edge_env t r"
    by (simp add: example_edge_env_def)
  from chat_request_rows [OF m p example_status] obtain u a where
    "row_sender u = ''user''" "row_sender a = ''ai''"
    "accepts example_edge_env [] u \<and> accepts example_edge_env ([] @ [u]) a \<longrightarrow>
       snd (chat_handler example_edge_env example_request []) = [] @ [u, a]"
    by blast
  with a have "map row_sender (snd (chat_handler example_edge_env example_request [])) =
      [''user'', ''ai'']"
    by simp
  with m example_status show ?thesis by blast
qed

text \<open>
  A well-formed \<open>POST\<close> to a database that refuses the inserts is answered with 200
  all the same, and no row is persisted: C1 as stated does not hold.
\<close>

theorem refused_inserts_still_answered:
  "req_method example_request = ''POST''
   \<and> status (fst (chat_handler refusing_edge_env example_request [])) = 200
   \<and> snd (chat_handler refusing_edge_env example_request []) = []"
  by (simp add: chat_handler_def handle_post_def example_request_def store_and_reply_rows
      db_insert_def refusing_edge_env_def)


section \<open>Properties of the API client\<close>

lemma sendMessage_not_ok:
  assumes "getAuthHeaders env = Inr hs"
    and "fetch env \<lparr>req_method = ''POST'', req_url = baseUrl env @ ''/chat'',
                     req_headers = hs, req_body = Some msg\<rparr> = Inr response"
    and "\<not> ok response"
  shows "api_sendMessage env msg =
     (case resp_json response of
        None \<Rightarrow> Inl SyntaxError
      | Some error \<Rightarrow>
          (case get_prop error ''detail'' of
             Inl e \<Rightarrow> Inl e
           | Inr detail \<Rightarrow>
               Inl (Error (js_String (js_or detail (JStr ''Failed to send message''))))))"
  using assms by (simp add: api_sendMessage_def)

lemma handler_error_body:
  assumes "\<not> ok (fst (chat_handler eenv req table))"
  shows "\<exists>e. resp_json (fst (chat_handler eenv req table)) =
           Some (JObj [(''error'', JStr (error_message e)), (''timestamp'', JStr (isoTime eenv))])
         \<and> snd (chat_handler eenv req table) = table"
proof (cases "req_method req = ''OPTIONS''")
  case True
  with assms show ?thesis by (simp add: chat_handler_def ok_def)
next
  case False
  show ?thesis
  proof (cases "handle_post eenv req table")
    case (Inl e)
    with False show ?thesis by (auto simp add: chat_handler_def)
  next
    case (Inr result)
    from handle_post_Inr [OF Inr] have "status (fst result) = 200"
      by (auto simp add: store_and_reply_rows)
    with Inr False assms show ?thesis by (simp add: chat_handler_def ok_def)
  qed
qed

lemma edge_reply:
  "fst (chat_handler example_edge_env
      \<lparr>req_method = ''POST'', req_url = ''http://localhost:8000/chat'',
       req_headers = [(''Content-Type'', ''application/json'')],
       req_body = Some message_without_session\<rparr> []) =
   \<lparr>status = 400,
    resp_json = Some (JObj [(''error'', JStr ''Missing required fields: content and session_id''),
                            (''timestamp'', JStr ''2023-11-14T22:13:20.000Z'')])\<rparr>"
  by (simp add: chat_handler_def handle_post_def message_without_session_def example_edge_env_def)

text \<open>
  C4, as the code has it. When the response to \<open>POST /chat\<close> is not ok,
  \<open>sendMessage\<close> rejects and never resolves. When the body is JSON and not \<open>null\<close>,
  it rejects with an \<open>Error\<close> whose message is the \<open>detail\<close> of the body when that is
  a non-empty string (the text of \<open>detail\<close> when it is another truthy value), and
  with the message \<open>Failed to send message\<close> when the body has no \<open>detail\<close> or a
  falsy one. When the body is not JSON it rejects with the \<open>SyntaxError\<close> of
  \<open>response.json()\<close>, and when the body is \<open>null\<close> with the \<open>TypeError\<close> of reading
  \<open>detail\<close>. The error bodies of the chat edge function are JSON objects with the
  properties \<open>error\<close> and \<open>timestamp\<close> and no \<open>detail\<close>.
\<close>

theorem sendMessage_rejects_when_not_ok:
  assumes "getAuthHeaders env = Inr hs"
    and "fetch env \<lparr>req_method = ''POST'', req_url = baseUrl env @ ''/chat'',
                     req_headers = hs, req_body = Some msg\<rparr> = Inr response"
    and "\<not> ok response"
  shows "(\<exists>e. api_sendMessage env msg = Inl e)
    \<and> (\<forall>error d. resp_json response = Some error \<and> get_prop error ''detail'' = Inr (JStr d)
          \<and> d \<noteq> []
          \<longrightarrow> api_sendMessage env msg = Inl (Error d))
    \<and> (\<forall>error detail. resp_json response = Some error \<and> get_prop error ''detail'' = Inr detail
          \<and> truthy detail
          \<longrightarrow> api_sendMessage env msg = Inl (Error (js_String detail)))
    \<and> (\<forall>error detail. resp_json response = Some error \<and> get_prop error ''detail'' = Inr detail
          \<and> \<not> truthy detail
          \<longrightarrow> api_sendMessage env msg = Inl (Error ''Failed to send message''))
    \<and> (resp_json response = None \<longrightarrow> api_sendMessage env msg = Inl SyntaxError)
    \<and> (resp_json response = Some JNull \<longrightarrow> api_sendMessage env msg = Inl TypeError)
    \<and> (\<forall>error. resp_json response = Some error \<and> error \<noteq> JNull \<and> error \<noteq> JUndefined
          \<longrightarrow> (\<exists>detail. get_prop error ''detail'' = Inr detail))
    \<and> (\<not> ok (fst (chat_handler eenv req table)) \<longrightarrow>
         (\<exists>e. resp_json (fst (chat_handler eenv req table)) =
            Some (JObj [(''error'', JStr (error_message e)),
                        (''timestamp'', JStr (isoTime eenv))])))"
proof -
  note eq = sendMessage_not_ok [OF assms]
  have 1: "\<exists>e. api_sendMessage env msg = Inl e"
    unfolding eq by (simp split: option.splits sum.splits)
  have 2: "\<forall>error d. resp_json response = Some error \<and> get_prop error ''detail'' = Inr (JStr d)
          \<and> d \<noteq> []
          \<longrightarrow> api_sendMessage env msg = Inl (Error d)"
    unfolding eq by (simp add: js_or_def)
  have 3: "\<forall>error detail. resp_json response = Some error \<and> get_prop error ''detail'' = Inr detail
          \<and> truthy detail
          \<longrightarrow> api_sendMessage env msg = Inl (Error (js_String detail))"
    unfolding eq by (simp add: js_or_def)
  have 4: "\<forall>error detail. resp_json response = Some error \<and> get_prop error ''detail'' = Inr detail
          \<and> \<not> truthy detail
          \<longrightarrow> api_sendMessage env msg = Inl (Error ''Failed to send message'')"
    unfolding eq by (simp add: js_or_def)
  have 5: "resp_json response = None \<longrightarrow> api_sendMessage env msg = Inl SyntaxError"
    unfolding eq by simp
  have 6: "resp_json response = Some JNull \<longrightarrow> api_sendMessage env msg = Inl TypeError"
    unfolding eq by simp
  have 7: "\<forall>error. resp_json response = Some error \<and> error \<noteq> JNull \<and> error \<noteq> JUndefined
          \<longrightarrow> (\<exists>detail. get_prop error ''detail'' = Inr detail)"
  proof (intro allI impI)
    fix error
    assume "resp_json response = Some error \<and> error \<noteq> JNull \<and> error \<noteq> JUndefined"
    then show "\<exists>detail. get_prop error ''detail'' = Inr detail"
      by (cases error) simp_all
  qed
  from 1 2 3 4 5 6 7 handler_error_body [of eenv req table] show ?thesis by blast
qed

theorem sendMessage_rejects_when_not_ok_witness:
  "getAuthHeaders detail_env = Inr [(''Content-Type'', ''application/json'')]
   \<and> \<not> ok \<lparr>status = 422, resp_json = Some (JObj [(''detail'', JStr ''Session not found'')])\<rparr>
   \<and> api_sendMessage detail_env message_without_session = Inl (Error ''Session not found'')
   \<and> getAuthHeaders edge_backed_env = Inr [(''Content-Type'', ''application/json'')]
   \<and> \<not> truthy JUndefined
   \<and> api_sendMessage edge_backed_env message_without_session =
       Inl (Error ''Failed to send message'')
   \<and> getAuthHeaders gateway_env = Inr [(''Content-Type'', ''application/json'')]
   \<and> \<not> ok \<lparr>status = 502, resp_json = None\<rparr>
   \<and> api_sendMessage gateway_env message_without_session = Inl SyntaxError
   \<and> getAuthHeaders null_body_env = Inr [(''Content-Type'', ''application/json'')]
   \<and> \<not> ok \<lparr>status = 500, resp_json = Some JNull\<rparr>
   \<and> api_sendMessage null_body_env message_without_session = Inl TypeError"
proof -
  let ?hs = "[(''Content-Type'', ''application/json'')]"
  let ?r = "\<lparr>status = 422, resp_json = Some (JObj [(''detail'', JStr ''Session not found'')])\<rparr>"
  let ?req = "\<lparr>req_method = ''POST'', req_url = ''http://localhost:8000/chat'',
       req_headers = ?hs, req_body = Some message_without_session\<rparr>"
  let ?e = "fst (chat_handler example_edge_env ?req [])"
  have h: "getAuthHeaders detail_env = Inr ?hs"
    by (simp add: getAuthHeaders_def detail_env_def)
  have f: "fetch detail_env \<lparr>req_method = ''POST'', req_url = baseUrl detail_env @ ''/chat'',
      req_headers = ?hs, req_body = Some message_without_session\<rparr> = Inr ?r"
    by (simp add: detail_env_def)
  have n: "\<not> ok ?r"
    by (simp add: ok_def)
  have d: "resp_json ?r = Some (JObj [(''detail'', JStr ''Session not found'')])
      \<and> get_prop (JObj [(''detail'', JStr ''Session not found'')]) ''detail'' =
          Inr (JStr ''Session not found'')
      \<and> ''Session not found'' \<noteq> []"
    by simp
  from sendMessage_rejects_when_not_ok [OF h f n] d
  have 1: "api_sendMessage detail_env message_without_session = Inl (Error ''Session not found'')"
    by blast
  have h': "getAuthHeaders edge_backed_env = Inr ?hs"
    by (simp add: getAuthHeaders_def edge_backed_env_def)
  have f': "fetch edge_backed_env
      \<lparr>req_method = ''POST'', req_url = baseUrl edge_backed_env @ ''/chat'',
       req_headers = ?hs, req_body = Some message_without_session\<rparr> = Inr ?e"
    by (simp add: edge_backed_env_def)
  have n': "\<not> ok ?e"
    unfolding edge_reply by (simp add: ok_def)
  have d': "resp_json ?e =
        Some (JObj [(''error'', JStr ''Missing required fields: content and session_id''),
                    (''timestamp'', JStr ''2023-11-14T22:13:20.000Z'')])
      \<and> get_prop (JObj [(''error'', JStr ''Missing required fields: content and session_id''),
                    (''timestamp'', JStr ''2023-11-14T22:13:20.000Z'')]) ''detail'' = Inr JUndefined
      \<and> \<not> truthy JUndefined"
    unfolding edge_reply by simp
  from sendMessage_rejects_when_not_ok [OF h' f' n'] d'
  have 2: "api_sendMessage edge_backed_env message_without_session =
      Inl (Error ''Failed to send message'')"
    by blast
  let ?g = "\<lparr>status = 502, resp_json = None\<rparr>"
  have hg: "getAuthHeaders gateway_env = Inr ?hs"
    by (simp add: getAuthHeaders_def gateway_env_def)
  have fg: "fetch gateway_env
      \<lparr>req_method = ''POST'', req_url = baseUrl gateway_env @ ''/chat'',
       req_headers = ?hs, req_body = Some message_without_session\<rparr> = Inr ?g"
    by (simp add: gateway_env_def)
  have ng: "\<not> ok ?g"
    by (simp add: ok_def)
  have dg: "resp_json ?g = None"
    by simp
  from sendMessage_rejects_when_not_ok [OF hg fg ng] dg
  have 3: "api_sendMessage gateway_env message_without_session = Inl SyntaxError"
    by blast
  let ?z = "\<lparr>status = 500, resp_json = Some JNull\<rparr>"
  have hz: "getAuthHeaders null_body_env = Inr ?hs"
    by (simp add: getAuthHeaders_def null_body_env_def)
  have fz: "fetch null_body_env
      \<lparr>req_method = ''POST'', req_url = baseUrl null_body_env @ ''/chat'',
       req_headers = ?hs, req_body = Some message_without_session\<rparr> = Inr ?z"
    by (simp add: null_body_env_def)
  have nz: "\<not> ok ?z"
    by (simp add: ok_def)
  have dz: "resp_json ?z = Some JNull"
    by simp
  from sendMessage_rejects_when_not_ok [OF hz fz nz] dz
  have 4: "api_sendMessage null_body_env message_without_session = Inl TypeError"
    by blast
  from h n 1 h' 2 hg ng 3 hz nz 4 show ?thesis by simp
qed

text \<open>
  The edge function refuses a message with an empty session id with status 400 and a
  body that has no \<open>detail\<close>; the client then reports \<open>Failed to send message\<close>, not
  the reason the server gave. The error body C4 states is not the one this server
  sends.
\<close>

theorem edge_error_body_has_no_detail:
  "\<not> ok (fst (chat_handler example_edge_env
      \<lparr>req_method = ''POST'', req_url = ''http://localhost:8000/chat'',
       req_headers = [(''Content-Type'', ''application/json'')],
       req_body = Some message_without_session\<rparr> []))
   \<and> map_option (\<lambda>body. get_prop body ''detail'')
        (resp_json (fst (chat_handler example_edge_env
          \<lparr>req_method = ''POST'', req_url = ''http://localhost:8000/chat'',
           req_headers = [(''Content-Type'', ''application/json'')],
           req_body = Some message_without_session\<rparr> []))) = Some (Inr JUndefined)
   \<and> api_sendMessage edge_backed_env message_without_session =
       Inl (Error ''Failed to send message'')"
  unfolding edge_reply
  by (simp add: ok_def api_sendMessage_def getAuthHeaders_def edge_backed_env_def edge_reply
      js_or_def)

lemma getSessionHistory_ok:
  assumes "getAuthHeaders env = Inr hs"
    and "fetch env \<lparr>req_method = ''GET'',
                     req_url = baseUrl env @ ''/session/'' @ sid @ ''/history'',
                     req_headers = hs, req_body = None\<rparr> = Inr response"
    and "ok response"
    and "resp_json response = Some data"
    and "get_prop data ''history'' = Inr (JArr items)"
  shows "api_getSessionHistory env sid = JArr items"
  using assms by (simp add: api_getSessionHistory_def js_or_def)

lemma session_history_sorted: "sorted (map sm_created (session_history store sid))"
  by (simp add: session_history_def)

lemma session_history_mset:
  "mset (session_history store sid) = filter_mset (\<lambda>m. sm_session m = sid) (mset store)"
  by (simp add: session_history_def)

text \<open>
  C6. The history endpoint (modelled from the spec) answers with the messages of the
  session, all of them and no other, ascending by creation time; when the client's
  request is answered by it, \<open>getSessionHistory\<close> returns the items of exactly that
  list, in that order.
\<close>

theorem history_in_creation_order:
  assumes "getAuthHeaders env = Inr hs"
    and "fetch env \<lparr>req_method = ''GET'',
                     req_url = baseUrl env @ ''/session/'' @ sid @ ''/history'',
                     req_headers = hs, req_body = None\<rparr> = Inr (history_endpoint store sid)"
  shows "api_getSessionHistory env sid = JArr (map sm_item (session_history store sid))
    \<and> sorted (map sm_created (session_history store sid))
    \<and> mset (session_history store sid) = filter_mset (\<lambda>m. sm_session m = sid) (mset store)"
proof -
  have "ok (history_endpoint store sid)"
    by (simp add: ok_def history_endpoint_def)
  moreover have "resp_json (history_endpoint store sid) =
      Some (JObj [(''history'', JArr (map sm_item (session_history store sid)))])"
    by (simp add: history_endpoint_def)
  moreover have
    "get_prop (JObj [(''history'', JArr (map sm_item (session_history store sid)))]) ''history'' =
       Inr (JArr (map sm_item (session_history store sid)))"
    by simp
  ultimately have "api_getSessionHistory env sid = JArr (map sm_item (session_history store sid))"
    using getSessionHistory_ok [OF assms] by blast
  then show ?thesis
    using session_history_sorted session_history_mset by blast
qed

theorem history_in_creation_order_witness:
  "getAuthHeaders (history_env example_store) =
     Inr [(''Content-Type'', ''application/json''), (''Authorization'', ''Bearer token'')]
   \<and> api_getSessionHistory (history_env example_store) ''session-1'' =
       JArr [JObj [(''content'', JStr ''first'')], JObj [(''content'', JStr ''second'')],
             JObj [(''content'', JStr ''third'')]]"
proof -
  let ?hs = "[(''Content-Type'', ''application/json''), (''Authorization'', ''Bearer token'')]"
  have h: "getAuthHeaders (history_env example_store) = Inr ?hs"
    by (simp add: getAuthHeaders_def history_env_def)
  have f: "fetch (history_env example_store)
      \<lparr>req_method = ''GET'',
       req_url = baseUrl (history_env example_store) @ ''/session/'' @ ''session-1'' @ ''/history'',
       req_headers = ?hs, req_body = None\<rparr> = Inr (history_endpoint example_store ''session-1'')"
    by (simp add: history_env_def)
  have e: "map sm_item (session_history example_store ''session-1'') =
      [JObj [(''content'', JStr ''first'')], JObj [(''content'', JStr ''second'')],
       JObj [(''content'', JStr ''third'')]]"
    by (simp add: session_history_def example_store_def)
  from history_in_creation_order [OF h f]
  have "api_getSessionHistory (history_env example_store) ''session-1'' =
      JArr (map sm_item (session_history example_store ''session-1''))"
    by blast
  with h e show ?thesis by simp
qed


section \<open>Properties of the message counter of the schema\<close>

lemma trigger_messages:
  "chat_messages (update_session_message_count t NEW db) = chat_messages db"
  by (simp add: update_session_message_count_def)

lemma trigger_ids:
  "map cs_id (chat_sessions (update_session_message_count t NEW db)) = map cs_id (chat_sessions db)"
  by (simp add: update_session_message_count_def update_updated_at_column_def comp_def)

lemma count_messages_cong:
  "chat_messages db = chat_messages db' \<Longrightarrow> count_messages db sid = count_messages db' sid"
  by (simp add: count_messages_def)

lemma count_other:
  "sid \<noteq> cm_session_id row \<Longrightarrow>
   count_messages (db\<lparr>chat_messages := chat_messages db @ [row]\<rparr>) sid = count_messages db sid"
  by (simp add: count_messages_def)

lemma delete_session_keeps_counts:
  "counts_agree db \<Longrightarrow> counts_agree (delete_chat_session sid db)"
  unfolding counts_agree_def list_all_iff
  by (auto simp add: delete_chat_session_def count_messages_def filter_filter conj_commute
      intro!: arg_cong [where f = length] filter_cong)

text \<open>
  C7, as the schema has it. The trigger fires after an insert into \<open>chat_messages\<close>
  and on nothing else. After an insert the session the new row references exists and
  its \<open>message_count\<close> is the number of the rows that reference it; the sessions are
  the same ones in the same order, and every other session is unchanged, its counter
  included; so counters that agreed with the rows before the insert agree with them
  after it.
\<close>

theorem insert_keeps_message_count:
  assumes "insert_chat_message t row db = Inr db'"
  shows "chat_messages db' = chat_messages db @ [row]
    \<and> (\<forall>s \<in> set (chat_sessions db'). cs_id s = cm_session_id row \<longrightarrow>
          message_count s = count_messages db' (cm_session_id row))
    \<and> (\<exists>s \<in> set (chat_sessions db'). cs_id s = cm_session_id row)
    \<and> map cs_id (chat_sessions db') = map cs_id (chat_sessions db)
    \<and> length (chat_sessions db') = length (chat_sessions db)
    \<and> (\<forall>i < length (chat_sessions db). cs_id (chat_sessions db ! i) \<noteq> cm_session_id row \<longrightarrow>
          chat_sessions db' ! i = chat_sessions db ! i)
    \<and> (counts_agree db \<longrightarrow> counts_agree db')"
proof -
  let ?db1 = "db\<lparr>chat_messages := chat_messages db @ [row]\<rparr>"
  from assms have fk: "cm_session_id row \<in> set (map cs_id (chat_sessions db))"
    and d: "db' = update_session_message_count t row ?db1"
    by (auto simp add: insert_chat_message_def split: if_splits)
  have m: "chat_messages db' = chat_messages db @ [row]"
    unfolding d by (simp add: trigger_messages)
  have c: "\<And>sid. count_messages db' sid = count_messages ?db1 sid"
    by (rule count_messages_cong) (simp add: d trigger_messages)
  have 1: "\<forall>s \<in> set (chat_sessions db'). cs_id s = cm_session_id row \<longrightarrow>
          message_count s = count_messages db' (cm_session_id row)"
    unfolding c unfolding d
    by (auto simp add: update_session_message_count_def update_updated_at_column_def)
  have ids: "map cs_id (chat_sessions db') = map cs_id (chat_sessions db)"
    unfolding d trigger_ids by simp
  have 2: "\<exists>s \<in> set (chat_sessions db'). cs_id s = cm_session_id row"
  proof -
    from fk have "cm_session_id row \<in> set (map cs_id (chat_sessions db'))"
      unfolding ids .
    then show ?thesis by auto
  qed
  have len: "length (chat_sessions db') = length (chat_sessions db)"
    using ids by (metis length_map)
  have 3: "counts_agree db \<longrightarrow> counts_agree db'"
    unfolding counts_agree_def list_all_iff c unfolding d
    by (auto simp add: update_session_message_count_def update_updated_at_column_def count_other)
  have 4: "\<forall>i < length (chat_sessions db). cs_id (chat_sessions db ! i) \<noteq> cm_session_id row \<longrightarrow>
          chat_sessions db' ! i = chat_sessions db ! i"
    unfolding d by (simp add: update_session_message_count_def)
  from m 1 2 ids len 3 4 show ?thesis by blast
qed

theorem insert_keeps_message_count_witness:
  "insert_chat_message 2 example_message one_session = Inr one_message
   \<and> counts_agree one_session
   \<and> counts_agree one_message
   \<and> map message_count (chat_sessions one_message) = [1]
   \<and> length (chat_messages one_message) = 1
   \<and> insert_chat_message 2 example_message two_sessions = Inr two_sessions_after
   \<and> (1::nat) < length (chat_sessions two_sessions)
   \<and> cs_id (chat_sessions two_sessions ! 1) \<noteq> cm_session_id example_message
   \<and> chat_sessions two_sessions_after ! 1 = chat_sessions two_sessions ! 1
   \<and> map message_count (chat_sessions two_sessions_after) = [1, 7]"
proof -
  have i: "insert_chat_message 2 example_message one_session = Inr one_message"
    by (simp add: insert_chat_message_def one_session_def one_message_def example_message_def
        update_session_message_count_def update_updated_at_column_def count_messages_def)
  have b: "counts_agree one_session"
    by (simp add: counts_agree_def one_session_def count_messages_def)
  from insert_keeps_message_count [OF i] b have a: "counts_agree one_message"
    by blast
  have j: "insert_chat_message 2 example_message two_sessions = Inr two_sessions_after"
    by (simp add: insert_chat_message_def two_sessions_def two_sessions_after_def
        example_message_def update_session_message_count_def update_updated_at_column_def
        count_messages_def)
  have l: "(1::nat) < length (chat_sessions two_sessions)"
    by (simp add: two_sessions_def)
  have o: "cs_id (chat_sessions two_sessions ! 1) \<noteq> cm_session_id example_message"
    by (simp add: two_sessions_def example_message_def)
  from insert_keeps_message_count [OF j] l o
  have u: "chat_sessions two_sessions_after ! 1 = chat_sessions two_sessions ! 1"
    by blast
  have v: "map message_count (chat_sessions two_sessions_after) = [1, 7]"
    by (simp add: two_sessions_after_def)
  from i a b j l o u v show ?thesis
    by (simp add: one_message_def)
qed

text \<open>
  No trigger fires on a delete: after the only message of a session is deleted, the
  session's \<open>message_count\<close> is still 1 and no row references it. C7 as stated, for
  every insert or delete, does not hold.
\<close>

theorem delete_leaves_message_count_stale:
  "insert_chat_session 1 ''s1'' ''u1'' empty_database = Inr one_session
   \<and> insert_chat_message 2 example_message one_session = Inr one_message
   \<and> counts_agree one_message
   \<and> \<not> counts_agree (delete_chat_message ''m1'' one_message)
   \<and> map message_count (chat_sessions (delete_chat_message ''m1'' one_message)) = [1]
   \<and> chat_messages (delete_chat_message ''m1'' one_message) = []"
  by (simp add: insert_chat_session_def empty_database_def insert_chat_message_def
      one_session_def one_message_def example_message_def update_session_message_count_def
      update_updated_at_column_def count_messages_def counts_agree_def delete_chat_message_def)

end
